theory Spec2Isabelle
  imports Complex_Main
begin

section \<open>Python values, exceptions and the operators the judge uses\<close>

text \<open>
  The judge of \<^verbatim>\<open>llm_judge.py\<close> works on what \<^verbatim>\<open>json.loads\<close> returns: \<^verbatim>\<open>None\<close>,
  booleans, integers, floats, strings, lists and dictionaries. A float is kept by its
  exact value (a rational, an infinity or NaN): Python compares a float with an integer
  exactly, so no rounding enters the judge. A dictionary is an association list in
  insertion order, looked up with \<open>map_of\<close>.
\<close>

datatype pyfloat = FNaN | FInf bool | FFin rat

datatype pyval =
    PNone
  | PBool bool
  | PInt int
  | PFloat pyfloat
  | PStr string
  | PList "pyval list"
  | PDict "(string \<times> pyval) list"

type_synonym pydict = "(string \<times> pyval) list"

text \<open>
  Every exception the code can meet derives from \<^verbatim>\<open>Exception\<close>; the payload is what
  \<^verbatim>\<open>str(e)\<close> returns. \<open>JSONDecodeError\<close> is the only one the inner \<^verbatim>\<open>except\<close> clauses name.
\<close>

datatype exn =
    ValueError string
  | TypeError string
  | AttributeError string
  | JSONDecodeError string
  | OtherException string

fun str_exn :: "exn \<Rightarrow> string" where
  "str_exn (ValueError m) = m"
| "str_exn (TypeError m) = m"
| "str_exn (AttributeError m) = m"
| "str_exn (JSONDecodeError m) = m"
| "str_exn (OtherException m) = m"

fun is_JSONDecodeError :: "exn \<Rightarrow> bool" where
  "is_JSONDecodeError (JSONDecodeError m) = True"
| "is_JSONDecodeError e = False"

fun type_name :: "pyval \<Rightarrow> string" where
  "type_name PNone = ''NoneType''"
| "type_name (PBool b) = ''bool''"
| "type_name (PInt i) = ''int''"
| "type_name (PFloat f) = ''float''"
| "type_name (PStr s) = ''str''"
| "type_name (PList xs) = ''list''"
| "type_name (PDict d) = ''dict''"

definition quoted :: "string \<Rightarrow> string" where
  "quoted s = CHR 0x27 # s @ [CHR 0x27]"

text \<open>
  \<^verbatim>\<open>bool\<close> is a subclass of \<^verbatim>\<open>int\<close> in Python, so the values that \<^verbatim>\<open>>=\<close> can compare
  with an integer are the integers, the floats and the booleans.
\<close>

fun is_number :: "pyval \<Rightarrow> bool" where
  "is_number (PInt i) = True"
| "is_number (PFloat f) = True"
| "is_number (PBool b) = True"
| "is_number v = False"

fun float_ge_int :: "pyfloat \<Rightarrow> int \<Rightarrow> bool" where
  "float_ge_int FNaN n = False"
| "float_ge_int (FInf positive) n = positive"
| "float_ge_int (FFin q) n = (of_int n \<le> q)"

text \<open>\<^verbatim>\<open>v >= n\<close> for an integer \<open>n\<close>; a TypeError where Python has no ordering.\<close>

fun py_ge :: "pyval \<Rightarrow> int \<Rightarrow> exn + bool" where
  "py_ge (PInt i) n = Inr (n \<le> i)"
| "py_ge (PBool b) n = Inr (n \<le> (if b then 1 else 0))"
| "py_ge (PFloat f) n = Inr (float_ge_int f n)"
| "py_ge v n = Inl (TypeError (quoted ''>='' @ '' not supported between instances of ''
       @ quoted (type_name v) @ '' and '' @ quoted ''int''))"

fun truthy :: "pyval \<Rightarrow> bool" where
  "truthy PNone = False"
| "truthy (PBool b) = b"
| "truthy (PInt i) = (i \<noteq> 0)"
| "truthy (PFloat f) = (f \<noteq> FFin 0)"
| "truthy (PStr s) = (s \<noteq> [])"
| "truthy (PList xs) = (xs \<noteq> [])"
| "truthy (PDict d) = (d \<noteq> [])"

text \<open>\<^verbatim>\<open>a and b\<close> returns \<open>a\<close> when \<open>a\<close> is falsy and \<open>b\<close> otherwise.\<close>

definition py_and :: "pyval \<Rightarrow> pyval \<Rightarrow> pyval" where
  "py_and a b = (if truthy a then b else a)"

definition dict_get :: "pydict \<Rightarrow> string \<Rightarrow> pyval \<Rightarrow> pyval" where
  "dict_get d k dflt = (case map_of d k of None \<Rightarrow> dflt | Some v \<Rightarrow> v)"

text \<open>\<^verbatim>\<open>obj.get(k, dflt)\<close>: only a dictionary has the method.\<close>

fun py_get :: "pyval \<Rightarrow> string \<Rightarrow> pyval \<Rightarrow> exn + pyval" where
  "py_get (PDict d) k dflt = Inr (dict_get d k dflt)"
| "py_get v k dflt = Inl (AttributeError (quoted (type_name v)
       @ '' object has no attribute '' @ quoted ''get''))"

subsection \<open>String search and slicing\<close>

fun find_from :: "char \<Rightarrow> string \<Rightarrow> int \<Rightarrow> int" where
  "find_from c [] i = -1"
| "find_from c (x # xs) i = (if x = c then i else find_from c xs (i + 1))"

text \<open>\<^verbatim>\<open>text.find(c)\<close>: the lowest index of \<open>c\<close>, or -1.\<close>

definition py_find :: "char \<Rightarrow> string \<Rightarrow> int" where
  "py_find c s = find_from c s 0"

fun rfind_from :: "char \<Rightarrow> string \<Rightarrow> int \<Rightarrow> int \<Rightarrow> int" where
  "rfind_from c [] i found = found"
| "rfind_from c (x # xs) i found = rfind_from c xs (i + 1) (if x = c then i else found)"

text \<open>\<^verbatim>\<open>text.rfind(c)\<close>: the highest index of \<open>c\<close>, or -1.\<close>

definition py_rfind :: "char \<Rightarrow> string \<Rightarrow> int" where
  "py_rfind c s = rfind_from c s 0 (-1)"

text \<open>
  \<^verbatim>\<open>text[start:end]\<close>: a negative bound counts from the end, and both bounds are clamped
  to the text.
\<close>

definition slice_bound :: "string \<Rightarrow> int \<Rightarrow> nat" where
  "slice_bound s i =
     (let n = int (length s) in nat (if i < 0 then max 0 (i + n) else min i n))"

definition py_slice :: "string \<Rightarrow> int \<Rightarrow> int \<Rightarrow> string" where
  "py_slice s start end = take (slice_bound s end - slice_bound s start) (drop (slice_bound s start) s)"

text \<open>The lines of a multi-line string literal, joined by newlines.\<close>

fun join_lines :: "string list \<Rightarrow> string" where
  "join_lines [] = []"
| "join_lines [l] = l"
| "join_lines (l # ls) = l @ CHR 0x0A # join_lines ls"

section \<open>The judge\<close>

datatype JudgeType = QUALITY | CORRECTNESS | APPROPRIATENESS | COMPREHENSIVENESS | CUSTOM

fun judge_type_value :: "JudgeType \<Rightarrow> string" where
  "judge_type_value QUALITY = ''quality''"
| "judge_type_value CORRECTNESS = ''correctness''"
| "judge_type_value APPROPRIATENESS = ''appropriateness''"
| "judge_type_value COMPREHENSIVENESS = ''comprehensiveness''"
| "judge_type_value CUSTOM = ''custom''"

subsection \<open>Prompt templates\<close>

text \<open>
  The five templates of \<^verbatim>\<open>_get_judge_prompt\<close> after \<^verbatim>\<open>str.format\<close>: the fields are
  replaced by the arguments and each doubled brace by a single one.
\<close>

definition prompt_head :: "string \<Rightarrow> string \<Rightarrow> string \<Rightarrow> string list" where
  \<open>prompt_head first_line prompt response =
    [first_line,
     [],
     ''Original User Prompt: "'' @ prompt @ ''"'',
     [],
     ''LLM Response: "'' @ response @ ''"'',
     []]\<close>

definition prompt_json_head :: "string list" where
  \<open>prompt_json_head =
    [''Provide your judgment in JSON format with the following structure:'',
     ''{'',
     ''    "score": <number between 0-100>,'',
     ''    "passed": <true/false>,'',
     ''    "feedback": "<detailed feedback explaining your judgment>",'']\<close>

definition quality_prompt :: "string \<Rightarrow> string \<Rightarrow> string" where
  \<open>quality_prompt prompt response = join_lines
    (prompt_head ''You are an expert judge evaluating the quality of an LLM response.'' prompt response @
     [''Evaluate the response based on:'',
      ''- Clarity and coherence'',
      ''- Relevance to the prompt'',
      ''- Completeness'',
      ''- Writing quality and style'',
      ''- Usefulness of the information provided'',
      []] @ prompt_json_head @
     [''    "strengths": ["<strength1>", "<strength2>", ...],'',
      ''    "weaknesses": ["<weakness1>", "<weakness2>", ...]'',
      ''}''])\<close>

definition correctness_prompt :: "string \<Rightarrow> string \<Rightarrow> string" where
  \<open>correctness_prompt prompt response = join_lines
    (prompt_head ''You are an expert judge evaluating the correctness of an LLM response.'' prompt response @
     [''Evaluate the response based on:'',
      ''- Factual accuracy'',
      ''- Logical consistency'',
      ''- Absence of errors or misinformation'',
      ''- Proper use of terminology'',
      ''- Correctness of any claims or statements'',
      []] @ prompt_json_head @
     [''    "errors_found": ["<error1>", "<error2>", ...],'',
      ''    "correct_aspects": ["<correct aspect1>", "<correct aspect2>", ...]'',
      ''}''])\<close>

definition appropriateness_prompt :: "string \<Rightarrow> string \<Rightarrow> string" where
  \<open>appropriateness_prompt prompt response = join_lines
    (prompt_head ''You are an expert judge evaluating the appropriateness of an LLM response.'' prompt response @
     [''Evaluate the response based on:'',
      ''- Appropriateness for the context'',
      ''- Tone and language suitability'',
      ''- Absence of harmful, biased, or offensive content'',
      ''- Professionalism'',
      ''- Alignment with ethical guidelines'',
      []] @ prompt_json_head @
     [''    "concerns": ["<concern1>", "<concern2>", ...],'',
      ''    "appropriate_aspects": ["<appropriate aspect1>", "<appropriate aspect2>", ...]'',
      ''}''])\<close>

definition comprehensiveness_prompt :: "string \<Rightarrow> string \<Rightarrow> string" where
  \<open>comprehensiveness_prompt prompt response = join_lines
    (prompt_head ''You are an expert judge evaluating the comprehensiveness of an LLM response.'' prompt response @
     [''Evaluate the response based on:'',
      ''- Coverage of the topic'',
      ''- Depth of information provided'',
      ''- Addressing all aspects of the prompt'',
      ''- Completeness of the answer'',
      ''- Whether important details are included'',
      []] @ prompt_json_head @
     [''    "covered_aspects": ["<aspect1>", "<aspect2>", ...],'',
      ''    "missing_aspects": ["<missing aspect1>", "<missing aspect2>", ...]'',
      ''}''])\<close>

definition custom_prompt :: "string \<Rightarrow> string \<Rightarrow> string \<Rightarrow> string" where
  \<open>custom_prompt prompt response criteria = join_lines
    (prompt_head ''You are an expert judge evaluating an LLM response.'' prompt response @
     [''Evaluation Criteria:'',
      criteria,
      []] @ prompt_json_head @
     [''    "details": {"<key1>": "<value1>", "<key2>": "<value2>", ...}'',
      ''}''])\<close>

text \<open>
  \<^verbatim>\<open>_get_judge_prompt\<close>. \<^verbatim>\<open>not criteria\<close> holds for \<^verbatim>\<open>None\<close> and for the empty string.
\<close>

definition get_judge_prompt :: "string \<Rightarrow> string \<Rightarrow> JudgeType \<Rightarrow> string option \<Rightarrow> exn + string" where
  "get_judge_prompt original_prompt response judge_type criteria =
     (case judge_type of
        CUSTOM \<Rightarrow>
          (case criteria of
             None \<Rightarrow> Inl (ValueError ''Custom judge type requires criteria to be provided'')
           | Some c \<Rightarrow>
               if c = [] then Inl (ValueError ''Custom judge type requires criteria to be provided'')
               else Inr (custom_prompt original_prompt response c))
      | QUALITY \<Rightarrow> Inr (quality_prompt original_prompt response)
      | CORRECTNESS \<Rightarrow> Inr (correctness_prompt original_prompt response)
      | APPROPRIATENESS \<Rightarrow> Inr (appropriateness_prompt original_prompt response)
      | COMPREHENSIVENESS \<Rightarrow> Inr (comprehensiveness_prompt original_prompt response))"

subsection \<open>The judge model\<close>

text \<open>
  The call \<^verbatim>\<open>self.client.chat.completions.create(...)\<close> followed by
  \<^verbatim>\<open>.choices[0].message.content\<close> is the one effect of the judge. It is a step of an
  outside world \<open>'w\<close>: given the request it either raises or yields the content, which
  the client library types as an optional string, and leaves the world changed. The
  temperature and the response format are constants of the judge and stay inside the
  step.
\<close>

record request =
  req_model :: string
  req_system :: string
  req_user :: string

record 'w LLMJudge =
  judge_model :: string
  chat_create :: "'w \<Rightarrow> request \<Rightarrow> (exn + string option) \<times> 'w"

definition system_message :: string where
  "system_message = ''You are an expert judge. Always respond with valid JSON only.''"

definition judge_request :: "'w LLMJudge \<Rightarrow> string \<Rightarrow> request" where
  "judge_request self user =
     \<lparr>req_model = judge_model self, req_system = system_message, req_user = user\<rparr>"

subsection \<open>Parsing the judge's text\<close>

text \<open>
  \<^verbatim>\<open>json.loads\<close> belongs to the Python library, not to this repository: it is the
  parameter \<open>loads\<close>, which returns the decoded value or the exception it raises.
\<close>

type_synonym json_loads = "string \<Rightarrow> exn + pyval"

definition parse_failure :: "string \<Rightarrow> pyval" where
  "parse_failure text = PDict
     [(''score'', PInt 0),
      (''passed'', PBool False),
      (''feedback'', PStr ''Failed to parse judge response''),
      (''raw_text'', PStr text)]"

text \<open>\<^verbatim>\<open>_extract_json_from_text\<close>: an exception other than JSONDecodeError passes through.\<close>

definition extract_json_from_text :: "json_loads \<Rightarrow> string \<Rightarrow> exn + pyval" where
  "extract_json_from_text loads text =
     (let start = py_find CHR ''{'' text;
          end = py_rfind CHR ''}'' text + 1
      in if start \<noteq> -1 \<and> end > start then
           (case loads (py_slice text start end) of
              Inr v \<Rightarrow> Inr v
            | Inl e \<Rightarrow> if is_JSONDecodeError e then Inr (parse_failure text) else Inl e)
         else Inr (parse_failure text))"

text \<open>Lines 224 to 229 of \<^verbatim>\<open>judge\<close>: the strict parse, then the fallback.\<close>

definition judge_parse :: "json_loads \<Rightarrow> string \<Rightarrow> exn + pyval" where
  "judge_parse loads raw_judgment =
     (case loads raw_judgment of
        Inr v \<Rightarrow> Inr v
      | Inl e \<Rightarrow> if is_JSONDecodeError e then extract_json_from_text loads raw_judgment else Inl e)"

subsection \<open>Reconciliation and the verdict\<close>

text \<open>
  Lines 231 to 243 of \<^verbatim>\<open>judge\<close>. The default of the second \<^verbatim>\<open>get\<close> is an argument, so
  \<^verbatim>\<open>score >= passing_score\<close> is evaluated whether or not the key is present.
\<close>

definition judge_reconcile :: "pyval \<Rightarrow> string \<Rightarrow> JudgeType \<Rightarrow> int \<Rightarrow> exn + pydict" where
  "judge_reconcile judgment raw_judgment judge_type passing_score =
     (case py_get judgment ''score'' (PInt 0) of
        Inl e \<Rightarrow> Inl e
      | Inr score \<Rightarrow>
          (case py_ge score passing_score of
             Inl e \<Rightarrow> Inl e
           | Inr meets \<Rightarrow>
               (case py_get judgment ''passed'' (PBool meets) of
                  Inl e \<Rightarrow> Inl e
                | Inr judgment_passed \<Rightarrow>
                    (case py_get judgment ''feedback'' (PStr []) of
                       Inl e \<Rightarrow> Inl e
                     | Inr feedback \<Rightarrow>
                         Inr [(''judgment'', judgment),
                              (''raw_response'', PStr raw_judgment),
                              (''passed'', py_and judgment_passed (PBool meets)),
                              (''score'', score),
                              (''judge_type'', PStr (judge_type_value judge_type)),
                              (''feedback'', feedback)]))))"

text \<open>The handler of \<^verbatim>\<open>judge\<close>: lines 245 to 250.\<close>

definition judge_error :: "exn \<Rightarrow> pydict" where
  "judge_error e = [(''error'', PStr (str_exn e)), (''passed'', PBool False), (''score'', PInt 0)]"

text \<open>The body of the \<^verbatim>\<open>try\<close> block of \<^verbatim>\<open>judge\<close>, with the world it leaves.\<close>

definition judge_try ::
  "json_loads \<Rightarrow> 'w LLMJudge \<Rightarrow> string \<Rightarrow> string \<Rightarrow> JudgeType \<Rightarrow> string option \<Rightarrow> int \<Rightarrow> 'w
     \<Rightarrow> (exn + pydict) \<times> 'w" where
  "judge_try loads self original_prompt response judge_type criteria passing_score w =
     (case get_judge_prompt original_prompt response judge_type criteria of
        Inl e \<Rightarrow> (Inl e, w)
      | Inr judge_prompt \<Rightarrow>
          (case chat_create self w (judge_request self judge_prompt) of
             (Inl e, w') \<Rightarrow> (Inl e, w')
           | (Inr None, w') \<Rightarrow>
               (Inl (TypeError ''the JSON object must be str, bytes or bytearray, not NoneType''), w')
           | (Inr (Some raw_judgment), w') \<Rightarrow>
               (case judge_parse loads raw_judgment of
                  Inl e \<Rightarrow> (Inl e, w')
                | Inr judgment \<Rightarrow>
                    (judge_reconcile judgment raw_judgment judge_type passing_score, w'))))"

definition judge ::
  "json_loads \<Rightarrow> 'w LLMJudge \<Rightarrow> string \<Rightarrow> string \<Rightarrow> JudgeType \<Rightarrow> string option \<Rightarrow> int \<Rightarrow> 'w
     \<Rightarrow> pydict \<times> 'w" where
  "judge loads self original_prompt response judge_type criteria passing_score w =
     (case judge_try loads self original_prompt response judge_type criteria passing_score w of
        (Inl e, w') \<Rightarrow> (judge_error e, w')
      | (Inr verdict, w') \<Rightarrow> (verdict, w'))"

subsection \<open>Batch judgment\<close>

text \<open>The loop of \<^verbatim>\<open>judge_multiple\<close>, with \<open>results\<close> as the list built so far.\<close>

fun judge_multiple_loop ::
  "json_loads \<Rightarrow> 'w LLMJudge \<Rightarrow> string \<Rightarrow> JudgeType \<Rightarrow> string option \<Rightarrow> int
     \<Rightarrow> pydict list \<Rightarrow> string list \<Rightarrow> 'w \<Rightarrow> pydict list \<times> 'w" where
  "judge_multiple_loop loads self original_prompt judge_type criteria passing_score results [] w =
     (results, w)"
| "judge_multiple_loop loads self original_prompt judge_type criteria passing_score results
       (response # responses) w =
     (case judge loads self original_prompt response judge_type criteria passing_score w of
        (result, w') \<Rightarrow>
          judge_multiple_loop loads self original_prompt judge_type criteria passing_score
            (results @ [result]) responses w')"

definition judge_multiple ::
  "json_loads \<Rightarrow> 'w LLMJudge \<Rightarrow> string \<Rightarrow> string list \<Rightarrow> JudgeType \<Rightarrow> string option \<Rightarrow> int \<Rightarrow> 'w
     \<Rightarrow> pydict list \<times> 'w" where
  "judge_multiple loads self original_prompt responses judge_type criteria passing_score w =
     judge_multiple_loop loads self original_prompt judge_type criteria passing_score [] responses w"

subsection \<open>Comparison\<close>

definition default_comparison_criteria :: string where
  \<open>default_comparison_criteria = join_lines
    [''Compare these two responses and determine which is better based on:'',
     ''- Quality and clarity'',
     ''- Correctness and accuracy'',
     ''- Comprehensiveness'',
     ''- Appropriateness'',
     ''- Overall usefulness'']\<close>

definition comparison_prompt :: "string \<Rightarrow> string \<Rightarrow> string \<Rightarrow> string \<Rightarrow> string" where
  \<open>comparison_prompt original_prompt response1 response2 criteria = join_lines
    [''You are an expert judge comparing two LLM responses.'',
     [],
     ''Original User Prompt: "'' @ original_prompt @ ''"'',
     [],
     ''Response 1:'',
     ''"'' @ response1 @ ''"'',
     [],
     ''Response 2:'',
     ''"'' @ response2 @ ''"'',
     [],
     criteria,
     [],
     ''Provide your judgment in JSON format with the following structure:'',
     ''{'',
     ''    "winner": <1 or 2>,'',
     ''    "winner_explanation": "<explanation of why this response is better>",'',
     ''    "response1_score": <number between 0-100>,'',
     ''    "response2_score": <number between 0-100>,'',
     ''    "response1_strengths": ["<strength1>", "<strength2>", ...],'',
     ''    "response2_strengths": ["<strength1>", "<strength2>", ...],'',
     ''    "response1_weaknesses": ["<weakness1>", "<weakness2>", ...],'',
     ''    "response2_weaknesses": ["<weakness1>", "<weakness2>", ...],'',
     ''    "detailed_comparison": "<detailed comparison of both responses>"'',
     ''}'']\<close>

text \<open>\<^verbatim>\<open>comparison_criteria or default\<close>: the default replaces \<^verbatim>\<open>None\<close> and the empty string.\<close>

definition comparison_criteria_or_default :: "string option \<Rightarrow> string" where
  "comparison_criteria_or_default comparison_criteria =
     (case comparison_criteria of
        None \<Rightarrow> default_comparison_criteria
      | Some c \<Rightarrow> if c = [] then default_comparison_criteria else c)"

text \<open>Lines 364 to 372: one strict \<^verbatim>\<open>json.loads\<close>, then the result dictionary.\<close>

definition compare_result :: "json_loads \<Rightarrow> string \<Rightarrow> exn + pydict" where
  "compare_result loads raw_comparison =
     (case loads raw_comparison of
        Inl e \<Rightarrow> Inl e
      | Inr comparison \<Rightarrow>
          (case py_get comparison ''winner'' PNone of
             Inl e \<Rightarrow> Inl e
           | Inr winner \<Rightarrow>
               (case py_get comparison ''response1_score'' (PInt 0) of
                  Inl e \<Rightarrow> Inl e
                | Inr score1 \<Rightarrow>
                    (case py_get comparison ''response2_score'' (PInt 0) of
                       Inl e \<Rightarrow> Inl e
                     | Inr score2 \<Rightarrow>
                         Inr [(''comparison'', comparison),
                              (''raw_response'', PStr raw_comparison),
                              (''winner'', winner),
                              (''response1_score'', score1),
                              (''response2_score'', score2)]))))"

definition compare_error :: "exn \<Rightarrow> pydict" where
  "compare_error e = [(''error'', PStr (str_exn e)), (''winner'', PNone)]"

definition compare_try ::
  "json_loads \<Rightarrow> 'w LLMJudge \<Rightarrow> string \<Rightarrow> string \<Rightarrow> string \<Rightarrow> string option \<Rightarrow> 'w
     \<Rightarrow> (exn + pydict) \<times> 'w" where
  "compare_try loads self original_prompt response1 response2 comparison_criteria w =
     (case chat_create self w
             (judge_request self
                (comparison_prompt original_prompt response1 response2
                   (comparison_criteria_or_default comparison_criteria))) of
        (Inl e, w') \<Rightarrow> (Inl e, w')
      | (Inr None, w') \<Rightarrow>
          (Inl (TypeError ''the JSON object must be str, bytes or bytearray, not NoneType''), w')
      | (Inr (Some raw_comparison), w') \<Rightarrow> (compare_result loads raw_comparison, w'))"

definition compare_responses ::
  "json_loads \<Rightarrow> 'w LLMJudge \<Rightarrow> string \<Rightarrow> string \<Rightarrow> string \<Rightarrow> string option \<Rightarrow> 'w
     \<Rightarrow> pydict \<times> 'w" where
  "compare_responses loads self original_prompt response1 response2 comparison_criteria w =
     (case compare_try loads self original_prompt response1 response2 comparison_criteria w of
        (Inl e, w') \<Rightarrow> (compare_error e, w')
      | (Inr result, w') \<Rightarrow> (result, w'))"

section \<open>The specification's words\<close>

text \<open>
  The fallback of the specification: the substring from the first opening brace to the
  last closing brace, when there is one.
\<close>

definition first_index :: "char \<Rightarrow> string \<Rightarrow> nat option" where
  "first_index c s =
     (if c \<in> set s then Some (length (takeWhile (\<lambda>x. x \<noteq> c) s)) else None)"

definition last_index :: "char \<Rightarrow> string \<Rightarrow> nat option" where
  "last_index c s =
     (if c \<in> set s then Some (length s - 1 - length (takeWhile (\<lambda>x. x \<noteq> c) (rev s))) else None)"

definition brace_substring :: "string \<Rightarrow> string option" where
  "brace_substring text =
     (case first_index CHR ''{'' text of
        None \<Rightarrow> None
      | Some i \<Rightarrow>
          (case last_index CHR ''}'' text of
             None \<Rightarrow> None
           | Some j \<Rightarrow> if i \<le> j then Some (take (j + 1 - i) (drop i text)) else None))"

text \<open>
  The reconciliation of the specification: the score is 0 when absent or not a number,
  the judge's opinion is the threshold check when absent, and the final value is the
  opinion and the threshold check joined by \<^verbatim>\<open>and\<close> (for a boolean opinion, their
  conjunction).
\<close>

definition spec_score :: "pydict \<Rightarrow> pyval" where
  "spec_score d =
     (case map_of d ''score'' of
        None \<Rightarrow> PInt 0
      | Some v \<Rightarrow> if is_number v then v else PInt 0)"

definition spec_meets :: "pydict \<Rightarrow> int \<Rightarrow> bool" where
  "spec_meets d passing_score =
     (case py_ge (spec_score d) passing_score of Inr b \<Rightarrow> b | Inl e \<Rightarrow> False)"

definition spec_final_passed :: "pydict \<Rightarrow> int \<Rightarrow> pyval" where
  "spec_final_passed d passing_score =
     py_and (dict_get d ''passed'' (PBool (spec_meets d passing_score)))
            (PBool (spec_meets d passing_score))"

section \<open>A decoder and two judge models for the examples\<close>

text \<open>
  The examples need a concrete \<open>loads\<close>. \<open>json_decode\<close> decodes the JSON texts made
  of objects, arrays, strings without escapes, integer literals, \<^verbatim>\<open>true\<close>, \<^verbatim>\<open>false\<close>
  and \<^verbatim>\<open>null\<close>, and answers \<open>Malformed\<close> on every other text. All the texts of the
  examples are JSON of that fragment or are not JSON at all, so there it agrees with
  \<^verbatim>\<open>json.loads\<close>. It is a lexer that reads one character at a time, followed by a
  pushdown recogniser that reads one token at a time, so that whatever is wrong first in
  the text decides the outcome.

  Since Python 3.11 the conversion of an integer literal of more than 4300 digits raises
  a ValueError, which is not a JSONDecodeError; the scanner converts a literal where a
  value may start, as soon as it has read it.
\<close>

datatype token =
    TLBrace | TRBrace | TLBracket | TRBracket | TColon | TComma
  | TScalar pyval
  | TLongInt nat
  | TBad

datatype lexmode = Idle | InStr string | InNum bool string | InWord string

datatype decoded = Decoded pyval | Malformed | IntTooLong nat

definition is_ws :: "char \<Rightarrow> bool" where
  "is_ws c = (c = CHR '' '' \<or> c = CHR 0x09 \<or> c = CHR 0x0A \<or> c = CHR 0x0D)"

definition is_digit :: "char \<Rightarrow> bool" where
  "is_digit c = ((48::nat) \<le> of_char c \<and> of_char c \<le> (57::nat))"

definition is_lower :: "char \<Rightarrow> bool" where
  "is_lower c = ((97::nat) \<le> of_char c \<and> of_char c \<le> (122::nat))"

fun digits_value :: "string \<Rightarrow> int" where
  "digits_value [] = 0"
| "digits_value (c # cs) = (int (of_char c) - 48) + 10 * digits_value cs"

definition int_max_str_digits :: nat where
  "int_max_str_digits = 4300"

text \<open>
  The digits are kept last digit first; a sign with no digit is no number, and a number
  of too many digits is not converted.
\<close>

definition number_token :: "bool \<Rightarrow> string \<Rightarrow> token list option" where
  "number_token negative ds =
     (if ds = [] then None
      else if length ds > int_max_str_digits then Some [TLongInt (length ds)]
      else Some [TScalar (PInt (if negative then - digits_value ds else digits_value ds))])"

definition word_token :: "string \<Rightarrow> token list option" where
  "word_token w =
     (if w = ''true'' then Some [TScalar (PBool True)]
      else if w = ''false'' then Some [TScalar (PBool False)]
      else if w = ''null'' then Some [TScalar PNone]
      else None)"

definition idle_step :: "char \<Rightarrow> (lexmode \<times> token list) option" where
  "idle_step c =
     (if is_ws c then Some (Idle, [])
      else if c = CHR ''{'' then Some (Idle, [TLBrace])
      else if c = CHR ''}'' then Some (Idle, [TRBrace])
      else if c = CHR ''['' then Some (Idle, [TLBracket])
      else if c = CHR '']'' then Some (Idle, [TRBracket])
      else if c = CHR '':'' then Some (Idle, [TColon])
      else if c = CHR '','' then Some (Idle, [TComma])
      else if c = CHR 0x22 then Some (InStr [], [])
      else if c = CHR ''-'' then Some (InNum True [], [])
      else if is_digit c then Some (InNum False [c], [])
      else if is_lower c then Some (InWord [c], [])
      else None)"

text \<open>
  A step of the lexer gives the tokens it has finished and the mode to go on in, or no
  mode when the text is wrong at this character.
\<close>

definition emit_then :: "token list option \<Rightarrow> char \<Rightarrow> lexmode option \<times> token list" where
  "emit_then emitted c =
     (case emitted of
        None \<Rightarrow> (None, [])
      | Some ts \<Rightarrow>
          (case idle_step c of
             None \<Rightarrow> (None, ts)
           | Some (m, ts') \<Rightarrow> (Some m, ts @ ts')))"

fun lex_step :: "lexmode \<Rightarrow> char \<Rightarrow> lexmode option \<times> token list" where
  "lex_step Idle c = emit_then (Some []) c"
| "lex_step (InStr acc) c =
     (if c = CHR 0x22 then (Some Idle, [TScalar (PStr (rev acc))])
      else if c = CHR 0x5C \<or> of_char c < (32::nat) then (None, [])
      else (Some (InStr (c # acc)), []))"
| "lex_step (InNum negative ds) c =
     (if is_digit c then (if ds = ''0'' then (None, []) else (Some (InNum negative (c # ds)), []))
      else if c = CHR ''.'' \<or> c = CHR ''e'' \<or> c = CHR ''E'' then (None, [])
      else emit_then (number_token negative ds) c)"
| "lex_step (InWord w) c =
     (if is_lower c then (Some (InWord (w @ [c])), [])
      else emit_then (word_token w) c)"

fun lex_end :: "lexmode \<Rightarrow> token list option" where
  "lex_end Idle = Some []"
| "lex_end (InStr acc) = None"
| "lex_end (InNum negative ds) = number_token negative ds"
| "lex_end (InWord w) = word_token w"

text \<open>The tokens of a text; \<open>TBad\<close> ends them where the lexer cannot go on.\<close>

fun lex :: "lexmode \<Rightarrow> string \<Rightarrow> token list" where
  "lex m [] = (case lex_end m of None \<Rightarrow> [TBad] | Some ts \<Rightarrow> ts)"
| "lex m (c # cs) =
     (case lex_step m c of
        (None, ts) \<Rightarrow> ts @ [TBad]
      | (Some m', ts) \<Rightarrow> ts @ lex m' cs)"

text \<open>
  A later duplicate of a key replaces the value and keeps the place of the first, as in a
  Python dictionary.
\<close>

fun dict_set :: "pydict \<Rightarrow> string \<Rightarrow> pyval \<Rightarrow> pydict" where
  "dict_set [] k v = [(k, v)]"
| "dict_set ((k', v') # d) k v = (if k' = k then (k, v) # d else (k', v') # dict_set d k v)"

text \<open>
  The containers still open: a list with its elements so far, last one first, or a
  dictionary with its members so far and the key that waits for its value.
\<close>

datatype ctx = CList "pyval list" | CDict pydict "string option"

datatype pstate = SValue | SArrFirst | SArrNext | SObjFirst | SObjKey | SColon | SObjNext | SDone pyval

fun attach :: "pyval \<Rightarrow> ctx list \<Rightarrow> (pstate \<times> ctx list) option" where
  "attach v [] = Some (SDone v, [])"
| "attach v (CList es # st) = Some (SArrNext, CList (v # es) # st)"
| "attach v (CDict d (Some k) # st) = Some (SObjNext, CDict (dict_set d k v) None # st)"
| "attach v (CDict d None # st) = None"

fun value_start :: "token \<Rightarrow> ctx list \<Rightarrow> (pstate \<times> ctx list) option" where
  "value_start (TScalar v) st = attach v st"
| "value_start TLBracket st = Some (SArrFirst, CList [] # st)"
| "value_start TLBrace st = Some (SObjFirst, CDict [] None # st)"
| "value_start t st = None"

fun close_list :: "ctx list \<Rightarrow> (pstate \<times> ctx list) option" where
  "close_list (CList es # st) = attach (PList (rev es)) st"
| "close_list st = None"

fun close_dict :: "ctx list \<Rightarrow> (pstate \<times> ctx list) option" where
  "close_dict (CDict d None # st) = attach (PDict d) st"
| "close_dict st = None"

fun key_start :: "token \<Rightarrow> ctx list \<Rightarrow> (pstate \<times> ctx list) option" where
  "key_start (TScalar (PStr k)) (CDict d None # st) = Some (SColon, CDict d (Some k) # st)"
| "key_start t st = None"

fun parse_step :: "pstate \<Rightarrow> ctx list \<Rightarrow> token \<Rightarrow> (pstate \<times> ctx list) option" where
  "parse_step SValue st t = value_start t st"
| "parse_step SArrFirst st t = (if t = TRBracket then close_list st else value_start t st)"
| "parse_step SArrNext st t =
     (if t = TComma then Some (SValue, st) else if t = TRBracket then close_list st else None)"
| "parse_step SObjFirst st t = (if t = TRBrace then close_dict st else key_start t st)"
| "parse_step SObjKey st t = key_start t st"
| "parse_step SColon st t = (if t = TColon then Some (SValue, st) else None)"
| "parse_step SObjNext st t =
     (if t = TComma then Some (SObjKey, st) else if t = TRBrace then close_dict st else None)"
| "parse_step (SDone v) st t = None"

text \<open>The states in which a value may start, where the scanner converts a number.\<close>

fun value_expected :: "pstate \<Rightarrow> bool" where
  "value_expected SValue = True"
| "value_expected SArrFirst = True"
| "value_expected s = False"

fun parse_tokens :: "pstate \<Rightarrow> ctx list \<Rightarrow> token list \<Rightarrow> decoded" where
  "parse_tokens s st [] = (case s of SDone v \<Rightarrow> Decoded v | _ \<Rightarrow> Malformed)"
| "parse_tokens s st (TLongInt n # ts) = (if value_expected s then IntTooLong n else Malformed)"
| "parse_tokens s st (t # ts) =
     (case parse_step s st t of
        None \<Rightarrow> Malformed
      | Some (s', st') \<Rightarrow> parse_tokens s' st' ts)"

definition json_decode :: "string \<Rightarrow> decoded" where
  "json_decode text = parse_tokens SValue [] (lex Idle text)"

text \<open>The decimal digits of a natural number.\<close>

function show_nat :: "nat \<Rightarrow> string" where
  "show_nat n =
     (if n < 10 then [char_of (48 + n)] else show_nat (n div 10) @ [char_of (48 + n mod 10)])"
  by pat_completeness auto
termination
  by (relation "measure id") auto

declare show_nat.simps [simp del]

definition int_limit_message :: "nat \<Rightarrow> string" where
  "int_limit_message n =
     ''Exceeds the limit (4300 digits) for integer string conversion: value has ''
     @ show_nat n @ '' digits; use sys.set_int_max_str_digits() to increase the limit''"

text \<open>The decoder as a \<open>loads\<close>; \<open>m\<close> is the message of the JSONDecodeError.\<close>

definition example_loads :: "string \<Rightarrow> json_loads" where
  "example_loads m text =
     (case json_decode text of
        Decoded v \<Rightarrow> Inr v
      | Malformed \<Rightarrow> Inl (JSONDecodeError m)
      | IntTooLong n \<Rightarrow> Inl (ValueError (int_limit_message n)))"

text \<open>A text that is one integer literal of 4301 digits.\<close>

definition long_integer :: string where
  "long_integer = replicate 4301 CHR ''1''"

text \<open>
  Two judge models over a world that counts the calls: one answers every request with
  the same text, the other raises the same exception on every request.
\<close>

definition answering :: "string \<Rightarrow> nat LLMJudge" where
  "answering text =
     \<lparr>judge_model = ''gpt-4o'', chat_create = (\<lambda>n req. (Inr (Some text), Suc n))\<rparr>"

definition failing :: "exn \<Rightarrow> nat LLMJudge" where
  "failing e = \<lparr>judge_model = ''gpt-4o'', chat_create = (\<lambda>n req. (Inl e, Suc n))\<rparr>"

text \<open>Whether a value is a dictionary, the only kind of value with a \<^verbatim>\<open>get\<close> method.\<close>

fun is_dict :: "pyval \<Rightarrow> bool" where
  "is_dict (PDict d) = True"
| "is_dict v = False"

section \<open>Search, slicing and the brace substring\<close>

text \<open>
  \<^verbatim>\<open>find\<close> and \<^verbatim>\<open>rfind\<close> return the first and the last index, and the guard and the
  slice of \<^verbatim>\<open>_extract_json_from_text\<close> select the substring from the first opening brace
  to the last closing brace.
\<close>

lemma find_from_eq:
  "find_from c s k = (if c \<in> set s then k + int (length (takeWhile (\<lambda>x. x \<noteq> c) s)) else -1)"
  by (induction s arbitrary: k) auto

lemma rfind_from_eq:
  "rfind_from c s k found =
     (if c \<in> set s then k + int (length s) - 1 - int (length (takeWhile (\<lambda>x. x \<noteq> c) (rev s)))
      else found)"
proof (induction s arbitrary: k found)
  case Nil
  show ?case by simp
next
  case (Cons x xs)
  show ?case
  proof (cases "c \<in> set xs")
    case True
    then have "takeWhile (\<lambda>x. x \<noteq> c) (rev xs @ [x]) = takeWhile (\<lambda>x. x \<noteq> c) (rev xs)"
      by (intro takeWhile_append1[of c]) auto
    with True show ?thesis by (simp add: Cons.IH)
  next
    case False
    then have "takeWhile (\<lambda>y. y \<noteq> c) (rev xs @ [x]) = rev xs @ takeWhile (\<lambda>y. y \<noteq> c) [x]"
      by (intro takeWhile_append2) auto
    then have len: "length (takeWhile (\<lambda>y. y \<noteq> c) (rev (x # xs))) = length xs + (if x = c then 0 else 1)"
      by simp
    show ?thesis
    proof (cases "x = c")
      case True
      with len have "length (takeWhile (\<lambda>y. y \<noteq> c) (rev (c # xs))) = length xs" by simp
      with True False show ?thesis by (simp add: Cons.IH del: rev.simps)
    next
      case neq: False
      with False show ?thesis by (simp add: Cons.IH)
    qed
  qed
qed

lemma py_find_first_index:
  "py_find c s = (case first_index c s of None \<Rightarrow> -1 | Some i \<Rightarrow> int i)"
  by (simp add: py_find_def first_index_def find_from_eq)

lemma takeWhile_less_length:
  "c \<in> set s \<Longrightarrow> length (takeWhile (\<lambda>x. x \<noteq> c) s) < length s"
  by (induction s) auto

lemma py_rfind_last_index:
  "py_rfind c s = (case last_index c s of None \<Rightarrow> -1 | Some j \<Rightarrow> int j)"
proof (cases "c \<in> set s")
  case True
  then have "length (takeWhile (\<lambda>x. x \<noteq> c) (rev s)) < length s"
    using takeWhile_less_length[of c "rev s"] by simp
  with True show ?thesis
    by (simp add: py_rfind_def last_index_def rfind_from_eq)
next
  case False
  then show ?thesis by (simp add: py_rfind_def last_index_def rfind_from_eq)
qed

lemma first_index_less: "first_index c s = Some i \<Longrightarrow> i < length s"
  by (auto simp: first_index_def takeWhile_less_length split: if_splits)

lemma last_index_less: "last_index c s = Some j \<Longrightarrow> j < length s"
  using length_pos_if_in_set[of c s] by (auto simp: last_index_def split: if_splits)

lemma py_slice_nat:
  "i \<le> j \<Longrightarrow> j < length s \<Longrightarrow> py_slice s (int i) (int j + 1) = take (j + 1 - i) (drop i s)"
  by (simp add: py_slice_def slice_bound_def Let_def min_def nat_add_distrib)

lemma extract_json_brace_substring:
  "extract_json_from_text loads text =
     (case brace_substring text of
        None \<Rightarrow> Inr (parse_failure text)
      | Some sub \<Rightarrow>
          (case loads sub of
             Inr v \<Rightarrow> Inr v
           | Inl e \<Rightarrow> if is_JSONDecodeError e then Inr (parse_failure text) else Inl e))"
proof (cases "first_index CHR ''{'' text")
  case None
  then show ?thesis
    by (simp add: extract_json_from_text_def brace_substring_def py_find_first_index)
next
  case (Some i)
  note fi = Some
  show ?thesis
  proof (cases "last_index CHR ''}'' text")
    case None
    with fi show ?thesis
      by (simp add: extract_json_from_text_def brace_substring_def py_find_first_index
          py_rfind_last_index)
  next
    case (Some j)
    show ?thesis
    proof (cases "i \<le> j")
      case True
      with fi Some show ?thesis
        using py_slice_nat[OF True last_index_less[OF Some]]
        by (simp add: extract_json_from_text_def brace_substring_def py_find_first_index
            py_rfind_last_index)
    next
      case False
      with fi Some show ?thesis
        by (simp add: extract_json_from_text_def brace_substring_def py_find_first_index
            py_rfind_last_index)
    qed
  qed
qed

lemma brace_substring_no_brace:
  "CHR ''{'' \<notin> set raw \<or> CHR ''}'' \<notin> set raw \<Longrightarrow> brace_substring raw = None"
  by (auto simp: brace_substring_def first_index_def last_index_def)

lemma first_index_Cons:
  "c \<noteq> x \<Longrightarrow> first_index c (x # s) = map_option Suc (first_index c s)"
  by (simp add: first_index_def)

lemma last_index_Cons:
  "c \<noteq> x \<Longrightarrow> last_index c (x # s) = map_option Suc (last_index c s)"
proof (cases "c \<in> set s")
  case False
  assume "c \<noteq> x"
  with False show ?thesis by (simp add: last_index_def)
next
  case True
  assume neq: "c \<noteq> x"
  from True have tw: "takeWhile (\<lambda>y. y \<noteq> c) (rev s @ [x]) = takeWhile (\<lambda>y. y \<noteq> c) (rev s)"
    by (intro takeWhile_append1[of c]) auto
  from True have "length (takeWhile (\<lambda>y. y \<noteq> c) (rev s)) < length s"
    using takeWhile_less_length[of c "rev s"] by simp
  with True neq tw show ?thesis by (simp add: last_index_def)
qed

lemma brace_substring_Cons:
  "x \<noteq> CHR ''{'' \<Longrightarrow> x \<noteq> CHR ''}'' \<Longrightarrow> brace_substring (x # s) = brace_substring s"
  by (auto simp: brace_substring_def first_index_Cons last_index_Cons split: option.splits)

lemma brace_substring_replicate:
  "x \<noteq> CHR ''{'' \<Longrightarrow> x \<noteq> CHR ''}'' \<Longrightarrow> brace_substring (replicate n x @ s) = brace_substring s"
  by (induction n) (simp_all add: brace_substring_Cons)

section \<open>The verdict once the judge model has answered\<close>

lemma judge_answered:
  assumes "get_judge_prompt original_prompt response judge_type criteria = Inr p"
    and "chat_create self w (judge_request self p) = (Inr (Some raw), w')"
  shows "judge loads self original_prompt response judge_type criteria passing_score w =
     ((case judge_parse loads raw of
         Inl e \<Rightarrow> judge_error e
       | Inr judgment \<Rightarrow>
           (case judge_reconcile judgment raw judge_type passing_score of
              Inl e \<Rightarrow> judge_error e
            | Inr verdict \<Rightarrow> verdict)), w')"
  using assms by (simp add: judge_def judge_try_def split: sum.splits)

lemma judge_reconcile_dict:
  "judge_reconcile (PDict d) raw judge_type passing_score =
     (case py_ge (dict_get d ''score'' (PInt 0)) passing_score of
        Inl e \<Rightarrow> Inl e
      | Inr meets \<Rightarrow>
          Inr [(''judgment'', PDict d),
               (''raw_response'', PStr raw),
               (''passed'', py_and (dict_get d ''passed'' (PBool meets)) (PBool meets)),
               (''score'', dict_get d ''score'' (PInt 0)),
               (''judge_type'', PStr (judge_type_value judge_type)),
               (''feedback'', dict_get d ''feedback'' (PStr []))])"
  by (simp add: judge_reconcile_def split: sum.splits)

lemma py_ge_number: "is_number v \<Longrightarrow> \<exists>b. py_ge v n = Inr b"
  by (cases v) auto


lemma py_ge_not_number:
  "\<not> is_number v \<Longrightarrow> py_ge v n = Inl (TypeError (quoted ''>='' @ '' not supported between instances of ''
       @ quoted (type_name v) @ '' and '' @ quoted ''int''))"
  by (cases v) auto

lemma py_get_not_dict:
  "\<not> is_dict v \<Longrightarrow> py_get v k dflt = Inl (AttributeError (quoted (type_name v)
       @ '' object has no attribute '' @ quoted ''get''))"
  by (cases v) auto

lemma judge_answered_dict:
  assumes "get_judge_prompt original_prompt response judge_type criteria = Inr p"
    and "chat_create self w (judge_request self p) = (Inr (Some raw), w')"
    and "judge_parse loads raw = Inr (PDict d)"
  shows "fst (judge loads self original_prompt response judge_type criteria passing_score w) =
     (case py_ge (dict_get d ''score'' (PInt 0)) passing_score of
        Inl e \<Rightarrow> judge_error e
      | Inr meets \<Rightarrow>
          [(''judgment'', PDict d),
           (''raw_response'', PStr raw),
           (''passed'', py_and (dict_get d ''passed'' (PBool meets)) (PBool meets)),
           (''score'', dict_get d ''score'' (PInt 0)),
           (''judge_type'', PStr (judge_type_value judge_type)),
           (''feedback'', dict_get d ''feedback'' (PStr []))])"
  by (simp add: judge_answered[OF assms(1,2)] assms(3) judge_reconcile_dict split: sum.splits)

lemma spec_score_number:
  "is_number (dict_get d ''score'' (PInt 0)) \<Longrightarrow> spec_score d = dict_get d ''score'' (PInt 0)"
  by (simp add: spec_score_def dict_get_def split: option.splits)

section \<open>The examples, evaluated\<close>

lemma decode_85_true:
  \<open>json_decode ''{"score": 85, "passed": true}'' =
     Decoded (PDict [(''score'', PInt 85), (''passed'', PBool True)])\<close>
  by code_simp

lemma decode_85_false:
  \<open>json_decode ''{"score": 85, "passed": false}'' =
     Decoded (PDict [(''score'', PInt 85), (''passed'', PBool False)])\<close>
  by code_simp

lemma decode_50:
  \<open>json_decode ''{"score": 50}'' = Decoded (PDict [(''score'', PInt 50)])\<close>
  by code_simp

lemma decode_string_score:
  \<open>json_decode ''{"score": "85", "passed": true}'' =
     Decoded (PDict [(''score'', PStr ''85''), (''passed'', PBool True)])\<close>
  by code_simp

lemma decode_no_score:
  \<open>json_decode ''{"passed": true}'' = Decoded (PDict [(''passed'', PBool True)])\<close>
  by code_simp

lemma decode_wrapped:
  \<open>json_decode ''Here is my answer: {"score": 90, "passed": true} Thanks!'' = Malformed\<close>
  by code_simp

lemma decode_90_true:
  \<open>json_decode ''{"score": 90, "passed": true}'' =
     Decoded (PDict [(''score'', PInt 90), (''passed'', PBool True)])\<close>
  by code_simp

lemma brace_substring_wrapped:
  \<open>brace_substring ''Here is my answer: {"score": 90, "passed": true} Thanks!'' =
     Some ''{"score": 90, "passed": true}''\<close>
  by code_simp

lemma decode_prose: \<open>json_decode ''I cannot judge this.'' = Malformed\<close>
  by code_simp

lemma brace_substring_prose: \<open>brace_substring ''I cannot judge this.'' = None\<close>
  by code_simp

lemma decode_winner_wrapped:
  \<open>json_decode ''Here is my answer: {"winner": 1} Thanks!'' = Malformed\<close>
  by code_simp

lemma decode_winner:
  \<open>json_decode ''{"winner": 1}'' = Decoded (PDict [(''winner'', PInt 1)])\<close>
  by code_simp

lemma brace_substring_winner:
  \<open>brace_substring ''Here is my answer: {"winner": 1} Thanks!'' = Some ''{"winner": 1}''\<close>
  by code_simp

lemma decode_list: \<open>json_decode ''[1, 2]'' = Decoded (PList [PInt 1, PInt 2])\<close>
  by code_simp

lemma decode_not_json: \<open>json_decode ''not json'' = Malformed\<close>
  by code_simp

lemma decode_true_score:
  \<open>json_decode ''{"score": true}'' = Decoded (PDict [(''score'', PBool True)])\<close>
  by code_simp

lemma lex_ones:
  "ds \<noteq> ''0'' \<Longrightarrow>
   lex (InNum negative ds) (replicate n CHR ''1'' @ rest) =
     lex (InNum negative (replicate n CHR ''1'' @ ds)) rest"
proof (induction n arbitrary: ds)
  case 0
  show ?case by simp
next
  case (Suc n)
  have "CHR ''1'' # ds \<noteq> ''0''" by simp
  from Suc.IH[OF this] Suc.prems show ?case
    by (simp add: is_digit_def replicate_app_Cons_same)
qed

lemma lex_long_integer:
  "lex Idle (long_integer @ rest) = lex (InNum False long_integer) rest"
proof -
  have eq: "long_integer = CHR ''1'' # replicate 4300 CHR ''1''"
    unfolding long_integer_def by (simp add: replicate_Suc[symmetric] del: replicate_Suc)
  have whole: "replicate 4300 CHR ''1'' @ ''1'' = long_integer"
    unfolding eq by (simp add: replicate_append_same)
  have "lex Idle (long_integer @ rest) = lex Idle (CHR ''1'' # (replicate 4300 CHR ''1'' @ rest))"
    by (simp only: eq append_Cons)
  also have "\<dots> = lex (InNum False ''1'') (replicate 4300 CHR ''1'' @ rest)"
    by (simp add: emit_then_def idle_step_def is_ws_def is_digit_def)
  also have "\<dots> = lex (InNum False (replicate 4300 CHR ''1'' @ ''1'')) rest"
    by (rule lex_ones) simp
  finally show ?thesis by (simp only: whole)
qed

lemma number_token_long_integer:
  "number_token False long_integer = Some [TLongInt 4301]"
  by (simp add: number_token_def long_integer_def int_max_str_digits_def)

lemma decode_long_integer: "json_decode long_integer = IntTooLong 4301"
  using lex_long_integer[of "[]"]
  by (simp add: json_decode_def number_token_long_integer)

lemma decode_long_integer_then:
  "json_decode (long_integer @ CHR '' '' # rest) = IntTooLong 4301"
  using lex_long_integer[of "CHR '' '' # rest"]
  by (simp add: json_decode_def number_token_long_integer emit_then_def idle_step_def is_ws_def
      is_digit_def)

lemma show_nat_4301: "show_nat 4301 = ''4301''"
  by (simp add: show_nat.simps) code_simp

lemma example_loads_long_integer:
  "example_loads m long_integer = Inl (ValueError
     ''Exceeds the limit (4300 digits) for integer string conversion: value has 4301 digits; use sys.set_int_max_str_digits() to increase the limit'')"
  by (simp add: example_loads_def decode_long_integer int_limit_message_def show_nat_4301)

lemma example_loads_long_integer_then:
  "example_loads m (long_integer @ CHR '' '' # rest) = Inl (ValueError
     ''Exceeds the limit (4300 digits) for integer string conversion: value has 4301 digits; use sys.set_int_max_str_digits() to increase the limit'')"
  by (simp add: example_loads_def decode_long_integer_then int_limit_message_def show_nat_4301)

lemma brace_substring_long_then:
  \<open>brace_substring (long_integer @ '' {"score": 90, "passed": true}'') =
     Some ''{"score": 90, "passed": true}''\<close>
proof -
  have \<open>brace_substring '' {"score": 90, "passed": true}'' = Some ''{"score": 90, "passed": true}''\<close>
    by code_simp
  then show ?thesis
    by (simp add: long_integer_def brace_substring_replicate)
qed

lemma brace_substring_long_integer: "brace_substring long_integer = None"
  by (rule brace_substring_no_brace) (simp add: long_integer_def)

lemma prompt_quality: "get_judge_prompt p r QUALITY None = Inr (quality_prompt p r)"
  by (simp add: get_judge_prompt_def)

lemma answering_create:
  "chat_create (answering text) n req = (Inr (Some text), Suc n)"
  by (simp add: answering_def)

lemma example_loads_parse:
  "json_decode raw = Decoded v \<Longrightarrow> judge_parse (example_loads m) raw = Inr v"
  by (simp add: judge_parse_def example_loads_def)

section \<open>Reconciliation of the judge's opinion with the threshold\<close>

text \<open>
  Claim C1, as amended. For every parsed judgment map whose \<open>score\<close> is absent or a
  number (an integer, a float or a boolean) and for every passing score, the \<open>passed\<close>
  that \<open>judge\<close> returns is the judgment's own \<open>passed\<close> when present, otherwise
  \<^verbatim>\<open>score >= passing_score\<close>, joined by Python's \<^verbatim>\<open>and\<close> with \<^verbatim>\<open>score >= passing_score\<close>.
  For a boolean opinion this is the conjunction, and for an absent one it is the
  threshold check. On such maps the threshold check of the specification is the
  comparison the code makes.
\<close>

theorem judge_passed_reconciled:
  assumes "get_judge_prompt original_prompt response judge_type criteria = Inr p"
    and "chat_create self w (judge_request self p) = (Inr (Some raw), w')"
    and "judge_parse loads raw = Inr (PDict d)"
    and "is_number (dict_get d ''score'' (PInt 0))"
  shows "py_ge (dict_get d ''score'' (PInt 0)) passing_score = Inr (spec_meets d passing_score)
     \<and> map_of (fst (judge loads self original_prompt response judge_type criteria passing_score w)) ''passed''
         = Some (py_and (dict_get d ''passed'' (PBool (spec_meets d passing_score)))
                        (PBool (spec_meets d passing_score)))
     \<and> (map_of d ''passed'' = None \<longrightarrow>
          map_of (fst (judge loads self original_prompt response judge_type criteria passing_score w)) ''passed''
            = Some (PBool (spec_meets d passing_score)))
     \<and> (\<forall>b. map_of d ''passed'' = Some (PBool b) \<longrightarrow>
          map_of (fst (judge loads self original_prompt response judge_type criteria passing_score w)) ''passed''
            = Some (PBool (b \<and> spec_meets d passing_score)))"
proof -
  from py_ge_number[OF assms(4)] obtain b
    where b: "py_ge (dict_get d ''score'' (PInt 0)) passing_score = Inr b" by blast
  then have meets: "spec_meets d passing_score = b"
    by (simp add: spec_meets_def spec_score_number[OF assms(4)])
  have passed: "map_of (fst (judge loads self original_prompt response judge_type criteria passing_score w)) ''passed''
         = Some (py_and (dict_get d ''passed'' (PBool b)) (PBool b))"
    by (simp add: judge_answered_dict[OF assms(1,2,3)] b)
  show ?thesis
    unfolding passed meets using b by (auto simp: dict_get_def py_and_def)
qed

text \<open>
  The three examples of the claim: score 85 with opinion true passes at threshold 70,
  score 85 with opinion false fails, and score 50 with no opinion fails.
\<close>

theorem judge_passed_reconciled_witness:
  \<open>map_of (fst (judge (example_loads []) (answering ''{"score": 85, "passed": true}'')
              ''p'' ''r'' QUALITY None 70 0)) ''passed'' = Some (PBool True)
   \<and> map_of (fst (judge (example_loads []) (answering ''{"score": 85, "passed": false}'')
              ''p'' ''r'' QUALITY None 70 0)) ''passed'' = Some (PBool False)
   \<and> map_of (fst (judge (example_loads []) (answering ''{"score": 50}'')
              ''p'' ''r'' QUALITY None 70 0)) ''passed'' = Some (PBool False)
   \<and> judge_parse (example_loads []) ''{"score": 85, "passed": true}''
       = Inr (PDict [(''score'', PInt 85), (''passed'', PBool True)])
   \<and> judge_parse (example_loads []) ''{"score": 85, "passed": false}''
       = Inr (PDict [(''score'', PInt 85), (''passed'', PBool False)])
   \<and> judge_parse (example_loads []) ''{"score": 50}'' = Inr (PDict [(''score'', PInt 50)])
   \<and> is_number (dict_get [(''score'', PInt 85), (''passed'', PBool True)] ''score'' (PInt 0))
   \<and> is_number (dict_get [(''score'', PInt 85), (''passed'', PBool False)] ''score'' (PInt 0))
   \<and> is_number (dict_get [(''score'', PInt 50)] ''score'' (PInt 0))\<close>
proof -
  have n1: "is_number (dict_get [(''score'', PInt 85), (''passed'', PBool True)] ''score'' (PInt 0))"
    and n2: "is_number (dict_get [(''score'', PInt 85), (''passed'', PBool False)] ''score'' (PInt 0))"
    and n3: "is_number (dict_get [(''score'', PInt 50)] ''score'' (PInt 0))"
    by (simp_all add: dict_get_def)
  have m1: "spec_meets [(''score'', PInt 85), (''passed'', PBool True)] 70"
    and m2: "spec_meets [(''score'', PInt 85), (''passed'', PBool False)] 70"
    and m3: "\<not> spec_meets [(''score'', PInt 50)] 70"
    by (simp_all add: spec_meets_def spec_score_def)
  note q = prompt_quality[of "''p''" "''r''"]
  note a = answering_create[of _ 0]
  note p1 = example_loads_parse[OF decode_85_true, of "[]"]
  note p2 = example_loads_parse[OF decode_85_false, of "[]"]
  note p3 = example_loads_parse[OF decode_50, of "[]"]
  from judge_passed_reconciled[OF q a p1 n1, where passing_score = 70]
  have e1: \<open>map_of (fst (judge (example_loads []) (answering ''{"score": 85, "passed": true}'')
              ''p'' ''r'' QUALITY None 70 0)) ''passed'' = Some (PBool True)\<close>
    by (simp add: m1 dict_get_def py_and_def)
  from judge_passed_reconciled[OF q a p2 n2, where passing_score = 70]
  have e2: \<open>map_of (fst (judge (example_loads []) (answering ''{"score": 85, "passed": false}'')
              ''p'' ''r'' QUALITY None 70 0)) ''passed'' = Some (PBool False)\<close>
    by (simp add: m2 dict_get_def py_and_def)
  from judge_passed_reconciled[OF q a p3 n3, where passing_score = 70]
  have e3: \<open>map_of (fst (judge (example_loads []) (answering ''{"score": 50}'')
              ''p'' ''r'' QUALITY None 70 0)) ''passed'' = Some (PBool False)\<close>
    by (simp add: m3 dict_get_def py_and_def)
  from e1 e2 e3 p1 p2 p3 n1 n2 n3 show ?thesis by blast
qed

text \<open>
  The claim as stated, for every parsed judgment map, fails where the score is not a
  number. For the judgment \<^verbatim>\<open>{"score": "85", "passed": true}\<close> and passing score 0 the
  specification takes the score as 0, so the opinion and the threshold check both hold
  and the final value is true; in the code the comparison of a string with an integer
  raises TypeError, and the handler of \<open>judge\<close> returns passed false.
\<close>

theorem judge_passed_counterexample:
  \<open>judge_parse (example_loads []) ''{"score": "85", "passed": true}''
       = Inr (PDict [(''score'', PStr ''85''), (''passed'', PBool True)])
   \<and> spec_final_passed [(''score'', PStr ''85''), (''passed'', PBool True)] 0 = PBool True
   \<and> py_ge (PStr ''85'') 0
       = Inl (TypeError (quoted ''>='' @ '' not supported between instances of ''
                @ quoted ''str'' @ '' and '' @ quoted ''int''))
   \<and> map_of (fst (judge (example_loads []) (answering ''{"score": "85", "passed": true}'')
              ''p'' ''r'' QUALITY None 0 0)) ''passed'' = Some (PBool False)
   \<and> map_of (fst (judge (example_loads []) (answering ''{"score": "85", "passed": true}'')
              ''p'' ''r'' QUALITY None 0 0)) ''passed''
       \<noteq> Some (spec_final_passed [(''score'', PStr ''85''), (''passed'', PBool True)] 0)\<close>
proof -
  note p = example_loads_parse[OF decode_string_score, of "[]"]
  have s: "spec_final_passed [(''score'', PStr ''85''), (''passed'', PBool True)] 0 = PBool True"
    by (simp add: spec_final_passed_def spec_meets_def spec_score_def dict_get_def py_and_def)
  have v: \<open>map_of (fst (judge (example_loads []) (answering ''{"score": "85", "passed": true}'')
              ''p'' ''r'' QUALITY None 0 0)) ''passed'' = Some (PBool False)\<close>
    by (simp add: judge_answered_dict[OF prompt_quality answering_create p] dict_get_def judge_error_def)
  from p s v show ?thesis by simp
qed

section \<open>Strict parse, then the brace substring\<close>

text \<open>
  Claim C2, as amended. For every text of the judge model, \<open>judge\<close> takes the strict
  parse of the whole text when it succeeds; when it fails with a JSONDecodeError, it
  parses the substring from the first opening brace to the last closing brace; when it
  fails with any other exception, parsing ends with that exception and there is no
  fallback. The text \<^verbatim>\<open>Here is my answer: {"score": 90, "passed": true} Thanks!\<close> fails the
  strict parse with a JSONDecodeError and is parsed through its brace substring to score
  90 and passed true, and with passing score 70 the verdict has score 90 and passed true.
\<close>

theorem judge_parse_strict_then_fallback:
  \<open>judge_parse loads raw =
     (case loads raw of
        Inr v \<Rightarrow> Inr v
      | Inl e \<Rightarrow>
          if is_JSONDecodeError e then
            (case brace_substring raw of
               None \<Rightarrow> Inr (parse_failure raw)
             | Some sub \<Rightarrow>
                 (case loads sub of
                    Inr v \<Rightarrow> Inr v
                  | Inl e' \<Rightarrow> if is_JSONDecodeError e' then Inr (parse_failure raw) else Inl e'))
          else Inl e)
   \<and> example_loads m ''Here is my answer: {"score": 90, "passed": true} Thanks!'' = Inl (JSONDecodeError m)
   \<and> brace_substring ''Here is my answer: {"score": 90, "passed": true} Thanks!'' =
       Some ''{"score": 90, "passed": true}''
   \<and> judge_parse (example_loads m) ''Here is my answer: {"score": 90, "passed": true} Thanks!'' =
       Inr (PDict [(''score'', PInt 90), (''passed'', PBool True)])
   \<and> map_of (fst (judge (example_loads m)
                 (answering ''Here is my answer: {"score": 90, "passed": true} Thanks!'')
                 original_prompt response QUALITY None 70 n)) ''score'' = Some (PInt 90)
   \<and> map_of (fst (judge (example_loads m)
                 (answering ''Here is my answer: {"score": 90, "passed": true} Thanks!'')
                 original_prompt response QUALITY None 70 n)) ''passed'' = Some (PBool True)\<close>
proof -
  have strategy: "judge_parse loads raw =
     (case loads raw of
        Inr v \<Rightarrow> Inr v
      | Inl e \<Rightarrow>
          if is_JSONDecodeError e then
            (case brace_substring raw of
               None \<Rightarrow> Inr (parse_failure raw)
             | Some sub \<Rightarrow>
                 (case loads sub of
                    Inr v \<Rightarrow> Inr v
                  | Inl e' \<Rightarrow> if is_JSONDecodeError e' then Inr (parse_failure raw) else Inl e'))
          else Inl e)" for loads raw
    by (simp add: judge_parse_def extract_json_brace_substring split: sum.splits)
  have strict: \<open>example_loads m ''Here is my answer: {"score": 90, "passed": true} Thanks!'' = Inl (JSONDecodeError m)\<close>
    by (simp add: example_loads_def decode_wrapped)
  have sub: \<open>example_loads m ''{"score": 90, "passed": true}'' = Inr (PDict [(''score'', PInt 90), (''passed'', PBool True)])\<close>
    by (simp add: example_loads_def decode_90_true)
  have parsed: \<open>judge_parse (example_loads m) ''Here is my answer: {"score": 90, "passed": true} Thanks!'' =
       Inr (PDict [(''score'', PInt 90), (''passed'', PBool True)])\<close>
    by (simp add: strategy strict brace_substring_wrapped sub)
  have verdict: \<open>fst (judge (example_loads m)
                 (answering ''Here is my answer: {"score": 90, "passed": true} Thanks!'')
                 original_prompt response QUALITY None 70 n) =
     [(''judgment'', PDict [(''score'', PInt 90), (''passed'', PBool True)]),
      (''raw_response'', PStr ''Here is my answer: {"score": 90, "passed": true} Thanks!''),
      (''passed'', PBool True),
      (''score'', PInt 90),
      (''judge_type'', PStr ''quality''),
      (''feedback'', PStr [])]\<close>
    by (simp add: judge_answered_dict[OF prompt_quality answering_create parsed] dict_get_def py_and_def)
  show ?thesis
    unfolding verdict using strategy[of loads raw] strict parsed brace_substring_wrapped by simp
qed

text \<open>
  The claim as stated gives the fallback to every text whose strict parse fails. The
  text made of an integer literal of 4301 digits followed by
  \<^verbatim>\<open> {"score": 90, "passed": true}\<close> fails the strict parse with the ValueError of the
  integer conversion, and its brace substring parses to score 90; \<open>judge\<close> does not try
  the substring and returns the error verdict with score 0.
\<close>

theorem judge_parse_strict_then_fallback_counterexample:
  \<open>example_loads [] (long_integer @ '' {"score": 90, "passed": true}'')
     = Inl (ValueError ''Exceeds the limit (4300 digits) for integer string conversion: value has 4301 digits; use sys.set_int_max_str_digits() to increase the limit'')
   \<and> brace_substring (long_integer @ '' {"score": 90, "passed": true}'')
     = Some ''{"score": 90, "passed": true}''
   \<and> example_loads [] ''{"score": 90, "passed": true}''
     = Inr (PDict [(''score'', PInt 90), (''passed'', PBool True)])
   \<and> judge_parse (example_loads []) (long_integer @ '' {"score": 90, "passed": true}'')
     = Inl (ValueError ''Exceeds the limit (4300 digits) for integer string conversion: value has 4301 digits; use sys.set_int_max_str_digits() to increase the limit'')
   \<and> fst (judge (example_loads []) (answering (long_integer @ '' {"score": 90, "passed": true}''))
            ''p'' ''r'' QUALITY None 70 0)
     = [(''error'', PStr ''Exceeds the limit (4300 digits) for integer string conversion: value has 4301 digits; use sys.set_int_max_str_digits() to increase the limit''),
        (''passed'', PBool False),
        (''score'', PInt 0)]\<close>
proof -
  have strict: \<open>example_loads [] (long_integer @ '' {"score": 90, "passed": true}'')
     = Inl (ValueError ''Exceeds the limit (4300 digits) for integer string conversion: value has 4301 digits; use sys.set_int_max_str_digits() to increase the limit'')\<close>
    using example_loads_long_integer_then[of "[]" \<open>''{"score": 90, "passed": true}''\<close>] by simp
  have sub: \<open>example_loads [] ''{"score": 90, "passed": true}''
     = Inr (PDict [(''score'', PInt 90), (''passed'', PBool True)])\<close>
    by (simp add: example_loads_def decode_90_true)
  have parsed: \<open>judge_parse (example_loads []) (long_integer @ '' {"score": 90, "passed": true}'')
     = Inl (ValueError ''Exceeds the limit (4300 digits) for integer string conversion: value has 4301 digits; use sys.set_int_max_str_digits() to increase the limit'')\<close>
    by (simp add: judge_parse_def strict)
  have verdict: \<open>fst (judge (example_loads []) (answering (long_integer @ '' {"score": 90, "passed": true}''))
            ''p'' ''r'' QUALITY None 70 0)
     = [(''error'', PStr ''Exceeds the limit (4300 digits) for integer string conversion: value has 4301 digits; use sys.set_int_max_str_digits() to increase the limit''),
        (''passed'', PBool False),
        (''score'', PInt 0)]\<close>
    by (simp add: judge_answered[OF prompt_quality answering_create] parsed judge_error_def)
  from strict brace_substring_long_then sub parsed verdict show ?thesis by blast
qed

section \<open>Texts that cannot be parsed\<close>

text \<open>
  Claim C3, as amended. Take a text whose strict parse fails and which has no brace
  substring (in particular no opening or no closing brace) or whose brace substring
  fails to parse. The verdict of \<open>judge\<close> has score 0 and passed false. When the
  failures are JSONDecodeErrors, parsing returns the default structure with score 0,
  passed false, the fixed feedback \<^verbatim>\<open>Failed to parse judge response\<close> and the raw text, and
  the verdict carries that feedback. When the strict parse fails with another exception,
  or the strict parse fails with a JSONDecodeError and the brace substring with another
  exception, parsing ends with that exception and the verdict is the error verdict.
\<close>

theorem judge_parse_failure:
  assumes "get_judge_prompt original_prompt response judge_type criteria = Inr p"
    and "chat_create self w (judge_request self p) = (Inr (Some raw), w')"
    and "loads raw = Inl e1"
    and "brace_substring raw = None \<or> (brace_substring raw = Some sub \<and> loads sub = Inl e2)"
  shows "(CHR ''{'' \<notin> set raw \<or> CHR ''}'' \<notin> set raw \<longrightarrow> brace_substring raw = None)
     \<and> map_of (fst (judge loads self original_prompt response judge_type criteria passing_score w)) ''score''
         = Some (PInt 0)
     \<and> map_of (fst (judge loads self original_prompt response judge_type criteria passing_score w)) ''passed''
         = Some (PBool False)
     \<and> (is_JSONDecodeError e1 \<and> (brace_substring raw = None \<or> is_JSONDecodeError e2) \<longrightarrow>
          judge_parse loads raw =
            Inr (PDict [(''score'', PInt 0), (''passed'', PBool False),
                        (''feedback'', PStr ''Failed to parse judge response''),
                        (''raw_text'', PStr raw)])
          \<and> map_of (fst (judge loads self original_prompt response judge_type criteria passing_score w))
                ''feedback'' = Some (PStr ''Failed to parse judge response''))
     \<and> (\<not> is_JSONDecodeError e1 \<longrightarrow>
          judge_parse loads raw = Inl e1
          \<and> fst (judge loads self original_prompt response judge_type criteria passing_score w)
              = [(''error'', PStr (str_exn e1)), (''passed'', PBool False), (''score'', PInt 0)])
     \<and> (is_JSONDecodeError e1 \<and> brace_substring raw = Some sub \<and> \<not> is_JSONDecodeError e2 \<longrightarrow>
          judge_parse loads raw = Inl e2
          \<and> fst (judge loads self original_prompt response judge_type criteria passing_score w)
              = [(''error'', PStr (str_exn e2)), (''passed'', PBool False), (''score'', PInt 0)])"
proof -
  note verdict = judge_answered[OF assms(1,2), of loads passing_score]
  have default: "judge_reconcile (parse_failure raw) raw judge_type passing_score =
      Inr [(''judgment'', parse_failure raw),
           (''raw_response'', PStr raw),
           (''passed'', PBool False),
           (''score'', PInt 0),
           (''judge_type'', PStr (judge_type_value judge_type)),
           (''feedback'', PStr ''Failed to parse judge response'')]"
    by (simp add: parse_failure_def judge_reconcile_dict dict_get_def py_and_def)
  consider (other) "\<not> is_JSONDecodeError e1"
    | (none) "is_JSONDecodeError e1" "brace_substring raw = None"
    | (sub_decode) "is_JSONDecodeError e1" "brace_substring raw = Some sub" "loads sub = Inl e2"
        "is_JSONDecodeError e2"
    | (sub_other) "is_JSONDecodeError e1" "brace_substring raw = Some sub" "loads sub = Inl e2"
        "\<not> is_JSONDecodeError e2"
    using assms(4) by argo
  then show ?thesis
  proof cases
    case other
    then have "judge_parse loads raw = Inl e1"
      by (simp add: judge_parse_def assms(3))
    with other show ?thesis
      using brace_substring_no_brace[of raw] by (auto simp: verdict judge_error_def)
  next
    case none
    then have "judge_parse loads raw = Inr (parse_failure raw)"
      by (simp add: judge_parse_def assms(3) extract_json_brace_substring)
    with none show ?thesis
      by (simp add: verdict default) (simp add: parse_failure_def)
  next
    case sub_decode
    then have "judge_parse loads raw = Inr (parse_failure raw)"
      by (simp add: judge_parse_def assms(3) extract_json_brace_substring)
    with sub_decode show ?thesis
      using brace_substring_no_brace[of raw]
      by (simp add: verdict default) (auto simp: parse_failure_def)
  next
    case sub_other
    then have "judge_parse loads raw = Inl e2"
      by (simp add: judge_parse_def assms(3) extract_json_brace_substring)
    with sub_other show ?thesis
      using brace_substring_no_brace[of raw] by (auto simp: verdict judge_error_def)
  qed
qed

theorem judge_parse_failure_witness:
  \<open>example_loads ''Expecting value: line 1 column 1 (char 0)'' ''I cannot judge this.''
      = Inl (JSONDecodeError ''Expecting value: line 1 column 1 (char 0)'')
   \<and> is_JSONDecodeError (JSONDecodeError ''Expecting value: line 1 column 1 (char 0)'')
   \<and> CHR ''{'' \<notin> set ''I cannot judge this.''
   \<and> brace_substring ''I cannot judge this.'' = None
   \<and> judge_parse (example_loads ''Expecting value: line 1 column 1 (char 0)'') ''I cannot judge this.'' =
         Inr (PDict [(''score'', PInt 0), (''passed'', PBool False),
                     (''feedback'', PStr ''Failed to parse judge response''),
                     (''raw_text'', PStr ''I cannot judge this.'')])
   \<and> map_of (fst (judge (example_loads ''Expecting value: line 1 column 1 (char 0)'')
                (answering ''I cannot judge this.'') ''p'' ''r'' QUALITY None 70 0)) ''score''
         = Some (PInt 0)
   \<and> map_of (fst (judge (example_loads ''Expecting value: line 1 column 1 (char 0)'')
                (answering ''I cannot judge this.'') ''p'' ''r'' QUALITY None 70 0)) ''passed''
         = Some (PBool False)
   \<and> map_of (fst (judge (example_loads ''Expecting value: line 1 column 1 (char 0)'')
                (answering ''I cannot judge this.'') ''p'' ''r'' QUALITY None 70 0)) ''feedback''
         = Some (PStr ''Failed to parse judge response'')
   \<and> example_loads [] long_integer
      = Inl (ValueError ''Exceeds the limit (4300 digits) for integer string conversion: value has 4301 digits; use sys.set_int_max_str_digits() to increase the limit'')
   \<and> \<not> is_JSONDecodeError (ValueError ''Exceeds the limit (4300 digits) for integer string conversion: value has 4301 digits; use sys.set_int_max_str_digits() to increase the limit'')
   \<and> brace_substring long_integer = None
   \<and> fst (judge (example_loads []) (answering long_integer) ''p'' ''r'' QUALITY None 70 0)
      = [(''error'', PStr ''Exceeds the limit (4300 digits) for integer string conversion: value has 4301 digits; use sys.set_int_max_str_digits() to increase the limit''),
         (''passed'', PBool False),
         (''score'', PInt 0)]\<close>
proof -
  note q = prompt_quality[of "''p''" "''r''"]
  note a = answering_create[of _ 0]
  have s1: \<open>example_loads ''Expecting value: line 1 column 1 (char 0)'' ''I cannot judge this.''
      = Inl (JSONDecodeError ''Expecting value: line 1 column 1 (char 0)'')\<close>
    by (simp add: example_loads_def decode_prose)
  have f1: \<open>brace_substring ''I cannot judge this.'' = None
         \<or> (brace_substring ''I cannot judge this.'' = Some []
             \<and> example_loads ''Expecting value: line 1 column 1 (char 0)'' []
                 = Inl (JSONDecodeError []))\<close>
    by (simp add: brace_substring_prose)
  have f2: \<open>brace_substring long_integer = None
         \<or> (brace_substring long_integer = Some [] \<and> example_loads [] [] = Inl (JSONDecodeError []))\<close>
    by (simp add: brace_substring_long_integer)
  from judge_parse_failure[where loads = "example_loads ''Expecting value: line 1 column 1 (char 0)''",
      OF q a s1 f1, where passing_score = 70]
  have e1: \<open>judge_parse (example_loads ''Expecting value: line 1 column 1 (char 0)'') ''I cannot judge this.'' =
         Inr (PDict [(''score'', PInt 0), (''passed'', PBool False),
                     (''feedback'', PStr ''Failed to parse judge response''),
                     (''raw_text'', PStr ''I cannot judge this.'')])
   \<and> map_of (fst (judge (example_loads ''Expecting value: line 1 column 1 (char 0)'')
                (answering ''I cannot judge this.'') ''p'' ''r'' QUALITY None 70 0)) ''score''
         = Some (PInt 0)
   \<and> map_of (fst (judge (example_loads ''Expecting value: line 1 column 1 (char 0)'')
                (answering ''I cannot judge this.'') ''p'' ''r'' QUALITY None 70 0)) ''passed''
         = Some (PBool False)
   \<and> map_of (fst (judge (example_loads ''Expecting value: line 1 column 1 (char 0)'')
                (answering ''I cannot judge this.'') ''p'' ''r'' QUALITY None 70 0)) ''feedback''
         = Some (PStr ''Failed to parse judge response'')\<close>
    by (simp add: brace_substring_prose)
  from judge_parse_failure[where loads = "example_loads []", OF q a example_loads_long_integer[of "[]"] f2,
      where passing_score = 70]
  have e2: \<open>fst (judge (example_loads []) (answering long_integer) ''p'' ''r'' QUALITY None 70 0)
      = [(''error'', PStr ''Exceeds the limit (4300 digits) for integer string conversion: value has 4301 digits; use sys.set_int_max_str_digits() to increase the limit''),
         (''passed'', PBool False),
         (''score'', PInt 0)]\<close>
    by simp
  from s1 e1 e2 example_loads_long_integer[of "[]"] brace_substring_prose brace_substring_long_integer
  show ?thesis by simp
qed

text \<open>
  The claim as stated promises the default structure whenever both parses fail. The
  text of 4301 digits has no brace, its strict parse fails with the ValueError of the
  integer conversion, and parsing returns no default structure: the verdict is the error
  verdict, with no feedback.
\<close>

theorem judge_parse_failure_counterexample:
  \<open>example_loads [] long_integer
      = Inl (ValueError ''Exceeds the limit (4300 digits) for integer string conversion: value has 4301 digits; use sys.set_int_max_str_digits() to increase the limit'')
   \<and> CHR ''{'' \<notin> set long_integer
   \<and> CHR ''}'' \<notin> set long_integer
   \<and> brace_substring long_integer = None
   \<and> judge_parse (example_loads []) long_integer
      = Inl (ValueError ''Exceeds the limit (4300 digits) for integer string conversion: value has 4301 digits; use sys.set_int_max_str_digits() to increase the limit'')
   \<and> judge_parse (example_loads []) long_integer \<noteq> Inr (parse_failure long_integer)
   \<and> map_of (fst (judge (example_loads []) (answering long_integer) ''p'' ''r'' QUALITY None 70 0))
        ''feedback'' = None
   \<and> fst (judge (example_loads []) (answering long_integer) ''p'' ''r'' QUALITY None 70 0)
      = [(''error'', PStr ''Exceeds the limit (4300 digits) for integer string conversion: value has 4301 digits; use sys.set_int_max_str_digits() to increase the limit''),
         (''passed'', PBool False),
         (''score'', PInt 0)]\<close>
proof -
  have parsed: \<open>judge_parse (example_loads []) long_integer
      = Inl (ValueError ''Exceeds the limit (4300 digits) for integer string conversion: value has 4301 digits; use sys.set_int_max_str_digits() to increase the limit'')\<close>
    by (simp add: judge_parse_def example_loads_long_integer)
  have verdict: \<open>fst (judge (example_loads []) (answering long_integer) ''p'' ''r'' QUALITY None 70 0)
      = [(''error'', PStr ''Exceeds the limit (4300 digits) for integer string conversion: value has 4301 digits; use sys.set_int_max_str_digits() to increase the limit''),
         (''passed'', PBool False),
         (''score'', PInt 0)]\<close>
    by (simp add: judge_answered[OF prompt_quality answering_create] parsed judge_error_def)
  have nobrace: "CHR ''{'' \<notin> set long_integer" "CHR ''}'' \<notin> set long_integer"
    by (simp_all add: long_integer_def)
  from parsed verdict nobrace example_loads_long_integer[of "[]"] brace_substring_long_integer
  show ?thesis by simp
qed

section \<open>Failure of the judge model\<close>

text \<open>
  Claim C4. Whenever the call to the judge model raises, \<open>judge\<close> returns the verdict
  with score 0, passed false and the text of the exception under \<open>error\<close>; being a
  function into dictionaries, it hands no exception to its caller.
\<close>

theorem judge_call_failure:
  assumes "get_judge_prompt original_prompt response judge_type criteria = Inr p"
    and "chat_create self w (judge_request self p) = (Inl e, w')"
  shows "judge loads self original_prompt response judge_type criteria passing_score w =
     ([(''error'', PStr (str_exn e)), (''passed'', PBool False), (''score'', PInt 0)], w')"
  using assms by (simp add: judge_def judge_try_def judge_error_def)

theorem judge_call_failure_witness:
  "get_judge_prompt ''p'' ''r'' QUALITY None = Inr (quality_prompt ''p'' ''r'')
   \<and> chat_create (failing (OtherException ''Connection error.'')) 0
        (judge_request (failing (OtherException ''Connection error.'')) (quality_prompt ''p'' ''r''))
      = (Inl (OtherException ''Connection error.''), 1)
   \<and> judge (example_loads []) (failing (OtherException ''Connection error.'')) ''p'' ''r'' QUALITY None 70 0 =
     ([(''error'', PStr ''Connection error.''), (''passed'', PBool False), (''score'', PInt 0)], 1)"
proof -
  have h1: "get_judge_prompt ''p'' ''r'' QUALITY None = Inr (quality_prompt ''p'' ''r'')"
    by (simp add: get_judge_prompt_def)
  have h2: "chat_create (failing (OtherException ''Connection error.'')) 0
        (judge_request (failing (OtherException ''Connection error.'')) (quality_prompt ''p'' ''r''))
      = (Inl (OtherException ''Connection error.''), 1)"
    by (simp add: failing_def)
  show ?thesis
    using h1 h2 judge_call_failure[OF h1 h2, of "example_loads []" 70] by simp
qed

section \<open>CUSTOM without criteria\<close>

text \<open>
  Claim C5, as amended. For the judge type CUSTOM with criteria that are \<^verbatim>\<open>None\<close> or
  empty, \<^verbatim>\<open>_get_judge_prompt\<close> raises the ValueError
  \<^verbatim>\<open>Custom judge type requires criteria to be provided\<close>; \<open>judge\<close> catches it and, without
  calling the judge model, returns the dictionary with that message under \<open>error\<close>,
  passed false and score 0.
\<close>

theorem custom_without_criteria:
  assumes "criteria = None \<or> criteria = Some []"
  shows "get_judge_prompt original_prompt response CUSTOM criteria
           = Inl (ValueError ''Custom judge type requires criteria to be provided'')
     \<and> judge loads self original_prompt response CUSTOM criteria passing_score w =
         ([(''error'', PStr ''Custom judge type requires criteria to be provided''),
           (''passed'', PBool False), (''score'', PInt 0)], w)"
  using assms by (auto simp: get_judge_prompt_def judge_def judge_try_def judge_error_def)

theorem custom_without_criteria_witness:
  "get_judge_prompt ''p'' ''r'' CUSTOM None
           = Inl (ValueError ''Custom judge type requires criteria to be provided'')
     \<and> judge (example_loads []) (answering ''{}'') ''p'' ''r'' CUSTOM None 70 0 =
         ([(''error'', PStr ''Custom judge type requires criteria to be provided''),
           (''passed'', PBool False), (''score'', PInt 0)], 0)"
  using custom_without_criteria[of None "''p''" "''r''" "example_loads []" "answering ''{}''" 70 0]
  by simp

text \<open>
  The claim as stated says that \<open>judge\<close> raises the configuration error to its caller.
  The \<^verbatim>\<open>try\<close> block of \<open>judge\<close> does end with the ValueError, and \<open>judge\<close> returns a
  dictionary.
\<close>

theorem custom_without_criteria_counterexample:
  "judge_try (example_loads []) (answering ''{}'') ''p'' ''r'' CUSTOM None 70 0
     = (Inl (ValueError ''Custom judge type requires criteria to be provided''), 0)
   \<and> judge (example_loads []) (answering ''{}'') ''p'' ''r'' CUSTOM None 70 0 =
         ([(''error'', PStr ''Custom judge type requires criteria to be provided''),
           (''passed'', PBool False), (''score'', PInt 0)], 0)"
  by (simp add: get_judge_prompt_def judge_def judge_try_def judge_error_def)

section \<open>Comparison\<close>

text \<open>
  Claim C6. The claim says that \<open>compare_responses\<close> parses with the strategy of
  \<open>judge\<close>, the strict parse and then the brace substring. The code has the strict parse
  only: on the answer \<^verbatim>\<open>Here is my answer: {"winner": 1} Thanks!\<close> it returns the error
  dictionary with no winner, although the parsing of \<open>judge\<close> finds winner 1 in the same
  text.
\<close>

theorem compare_responses_no_fallback:
  \<open>compare_responses (example_loads m) (answering ''Here is my answer: {"winner": 1} Thanks!'')
       original_prompt response1 response2 comparison_criteria n
     = ([(''error'', PStr m), (''winner'', PNone)], Suc n)
   \<and> judge_parse (example_loads m) ''Here is my answer: {"winner": 1} Thanks!''
     = Inr (PDict [(''winner'', PInt 1)])\<close>
proof -
  have strict: \<open>example_loads m ''Here is my answer: {"winner": 1} Thanks!'' = Inl (JSONDecodeError m)\<close>
    by (simp add: example_loads_def decode_winner_wrapped)
  have sub: \<open>example_loads m ''{"winner": 1}'' = Inr (PDict [(''winner'', PInt 1)])\<close>
    by (simp add: example_loads_def decode_winner)
  have parsed: \<open>judge_parse (example_loads m) ''Here is my answer: {"winner": 1} Thanks!''
     = Inr (PDict [(''winner'', PInt 1)])\<close>
    by (simp add: judge_parse_def extract_json_brace_substring strict brace_substring_winner sub)
  have compared: \<open>compare_responses (example_loads m) (answering ''Here is my answer: {"winner": 1} Thanks!'')
       original_prompt response1 response2 comparison_criteria n
     = ([(''error'', PStr m), (''winner'', PNone)], Suc n)\<close>
    by (simp add: compare_responses_def compare_try_def answering_create compare_result_def strict
        compare_error_def)
  from compared parsed show ?thesis by simp
qed

text \<open>
  Claim C7. Every failure inside \<open>compare_responses\<close> gives the dictionary with the
  text of the exception under \<open>error\<close> and \<^verbatim>\<open>None\<close> as winner: a call that raises, a
  content that is \<^verbatim>\<open>None\<close>, a text that \<^verbatim>\<open>json.loads\<close> rejects, and a decoded value that is
  not a dictionary. \<open>compare_responses\<close> is a function into dictionaries and hands no
  exception to its caller.
\<close>

theorem compare_responses_failure:
  assumes "chat_create self w
             (judge_request self
                (comparison_prompt original_prompt response1 response2
                   (comparison_criteria_or_default comparison_criteria))) = (outcome, w')"
  shows "(outcome = Inl e \<longrightarrow>
            compare_responses loads self original_prompt response1 response2 comparison_criteria w
              = ([(''error'', PStr (str_exn e)), (''winner'', PNone)], w'))
     \<and> (outcome = Inr None \<longrightarrow>
            compare_responses loads self original_prompt response1 response2 comparison_criteria w
              = ([(''error'', PStr ''the JSON object must be str, bytes or bytearray, not NoneType''),
                  (''winner'', PNone)], w'))
     \<and> (outcome = Inr (Some raw) \<and> loads raw = Inl e \<longrightarrow>
            compare_responses loads self original_prompt response1 response2 comparison_criteria w
              = ([(''error'', PStr (str_exn e)), (''winner'', PNone)], w'))
     \<and> (outcome = Inr (Some raw) \<and> loads raw = Inr v \<and> \<not> is_dict v \<longrightarrow>
            compare_responses loads self original_prompt response1 response2 comparison_criteria w
              = ([(''error'', PStr (quoted (type_name v) @ '' object has no attribute '' @ quoted ''get'')),
                  (''winner'', PNone)], w'))"
  using assms
  by (auto simp: compare_responses_def compare_try_def compare_result_def compare_error_def
      py_get_not_dict)

theorem compare_responses_failure_witness:
  \<open>compare_responses (example_loads []) (failing (OtherException ''Connection error.''))
       ''p'' ''a'' ''b'' None 0
     = ([(''error'', PStr ''Connection error.''), (''winner'', PNone)], 1)
   \<and> compare_responses (example_loads [])
       \<lparr>judge_model = ''gpt-4o'', chat_create = (\<lambda>n req. (Inr None, Suc n))\<rparr>
       ''p'' ''a'' ''b'' None 0
     = ([(''error'', PStr ''the JSON object must be str, bytes or bytearray, not NoneType''),
         (''winner'', PNone)], 1)
   \<and> compare_responses (example_loads ''Expecting value: line 1 column 1 (char 0)'')
       (answering ''not json'') ''p'' ''a'' ''b'' None 0
     = ([(''error'', PStr ''Expecting value: line 1 column 1 (char 0)''), (''winner'', PNone)], 1)
   \<and> compare_responses (example_loads []) (answering ''[1, 2]'') ''p'' ''a'' ''b'' None 0
     = ([(''error'', PStr (quoted ''list'' @ '' object has no attribute '' @ quoted ''get'')),
         (''winner'', PNone)], 1)\<close>
proof -
  have c1: \<open>chat_create (failing (OtherException ''Connection error.'')) 0 req
      = (Inl (OtherException ''Connection error.''), 1)\<close> for req
    by (simp add: failing_def)
  have c2: \<open>chat_create \<lparr>judge_model = ''gpt-4o'', chat_create = (\<lambda>n req. (Inr None, Suc n))\<rparr> 0 req
      = (Inr None, 1)\<close> for req
    by simp
  have c3: \<open>chat_create (answering reply) 0 req = (Inr (Some reply), 1)\<close> for reply req
    by (simp add: answering_def)
  have l3: \<open>example_loads ''Expecting value: line 1 column 1 (char 0)'' ''not json''
      = Inl (JSONDecodeError ''Expecting value: line 1 column 1 (char 0)'')\<close>
    by (simp add: example_loads_def decode_not_json)
  have l4: \<open>example_loads [] ''[1, 2]'' = Inr (PList [PInt 1, PInt 2])\<close>
    by (simp add: example_loads_def decode_list)
  from compare_responses_failure[OF c1, where e = "OtherException ''Connection error.''"
      and loads = "example_loads []"]
  have e1: \<open>compare_responses (example_loads []) (failing (OtherException ''Connection error.''))
       ''p'' ''a'' ''b'' None 0
     = ([(''error'', PStr ''Connection error.''), (''winner'', PNone)], 1)\<close>
    by simp
  from compare_responses_failure[OF c2, where loads = "example_loads []"]
  have e2: \<open>compare_responses (example_loads [])
       \<lparr>judge_model = ''gpt-4o'', chat_create = (\<lambda>n req. (Inr None, Suc n))\<rparr>
       ''p'' ''a'' ''b'' None 0
     = ([(''error'', PStr ''the JSON object must be str, bytes or bytearray, not NoneType''),
         (''winner'', PNone)], 1)\<close>
    by simp
  from compare_responses_failure[OF c3, where raw = "''not json''"
      and loads = "example_loads ''Expecting value: line 1 column 1 (char 0)''"
      and e = "JSONDecodeError ''Expecting value: line 1 column 1 (char 0)''"]
  have e3: \<open>compare_responses (example_loads ''Expecting value: line 1 column 1 (char 0)'')
       (answering ''not json'') ''p'' ''a'' ''b'' None 0
     = ([(''error'', PStr ''Expecting value: line 1 column 1 (char 0)''), (''winner'', PNone)], 1)\<close>
    by (simp add: l3)
  from compare_responses_failure[OF c3, where raw = "''[1, 2]''" and loads = "example_loads []"
      and v = "PList [PInt 1, PInt 2]"]
  have e4: \<open>compare_responses (example_loads []) (answering ''[1, 2]'') ''p'' ''a'' ''b'' None 0
     = ([(''error'', PStr (quoted ''list'' @ '' object has no attribute '' @ quoted ''get'')),
         (''winner'', PNone)], 1)\<close>
    by (simp add: l4)
  from e1 e2 e3 e4 show ?thesis by blast
qed

section \<open>The default score\<close>

text \<open>
  Claim C8, as amended. When the parsed judgment map has no \<open>score\<close>, the verdict of
  \<open>judge\<close> has score 0 and its \<open>passed\<close> is reconciled with the threshold check
  \<^verbatim>\<open>0 >= passing_score\<close>. When the \<open>score\<close> is present and is neither an integer, a float
  nor a boolean (a string, \<^verbatim>\<open>null\<close>, a list or an object), the comparison raises TypeError
  and \<open>judge\<close> returns the error verdict, which carries score 0. A boolean score is
  compared as 1 or 0 and returned as it is.
\<close>

theorem judge_score_default:
  assumes "get_judge_prompt original_prompt response judge_type criteria = Inr p"
    and "chat_create self w (judge_request self p) = (Inr (Some raw), w')"
    and "judge_parse loads raw = Inr (PDict d)"
  shows "(map_of d ''score'' = None \<longrightarrow>
            map_of (fst (judge loads self original_prompt response judge_type criteria passing_score w)) ''score''
              = Some (PInt 0)
          \<and> map_of (fst (judge loads self original_prompt response judge_type criteria passing_score w)) ''passed''
              = Some (py_and (dict_get d ''passed'' (PBool (passing_score \<le> 0))) (PBool (passing_score \<le> 0))))
     \<and> (map_of d ''score'' = Some v \<and> \<not> is_number v \<longrightarrow>
            fst (judge loads self original_prompt response judge_type criteria passing_score w)
              = [(''error'', PStr (quoted ''>='' @ '' not supported between instances of ''
                     @ quoted (type_name v) @ '' and '' @ quoted ''int'')),
                 (''passed'', PBool False),
                 (''score'', PInt 0)])
     \<and> (map_of d ''score'' = Some (PBool b) \<longrightarrow>
            map_of (fst (judge loads self original_prompt response judge_type criteria passing_score w)) ''score''
              = Some (PBool b)
          \<and> map_of (fst (judge loads self original_prompt response judge_type criteria passing_score w)) ''passed''
              = Some (py_and (dict_get d ''passed'' (PBool (passing_score \<le> (if b then 1 else 0))))
                             (PBool (passing_score \<le> (if b then 1 else 0)))))"
  by (auto simp: judge_answered_dict[OF assms] dict_get_def py_ge_not_number judge_error_def)

theorem judge_score_default_witness:
  \<open>judge_parse (example_loads []) ''{"passed": true}'' = Inr (PDict [(''passed'', PBool True)])
   \<and> map_of [(''passed'', PBool True)] ''score'' = None
   \<and> map_of (fst (judge (example_loads []) (answering ''{"passed": true}'')
                ''p'' ''r'' QUALITY None 70 0)) ''score'' = Some (PInt 0)
   \<and> map_of (fst (judge (example_loads []) (answering ''{"passed": true}'')
                ''p'' ''r'' QUALITY None 70 0)) ''passed'' = Some (PBool False)
   \<and> judge_parse (example_loads []) ''{"score": "85", "passed": true}''
       = Inr (PDict [(''score'', PStr ''85''), (''passed'', PBool True)])
   \<and> map_of [(''score'', PStr ''85''), (''passed'', PBool True)] ''score'' = Some (PStr ''85'')
   \<and> \<not> is_number (PStr ''85'')
   \<and> fst (judge (example_loads []) (answering ''{"score": "85", "passed": true}'')
                ''p'' ''r'' QUALITY None 70 0)
       = [(''error'', PStr (quoted ''>='' @ '' not supported between instances of ''
                     @ quoted ''str'' @ '' and '' @ quoted ''int'')),
          (''passed'', PBool False),
          (''score'', PInt 0)]
   \<and> judge_parse (example_loads []) ''{"score": true}'' = Inr (PDict [(''score'', PBool True)])
   \<and> map_of [(''score'', PBool True)] ''score'' = Some (PBool True)
   \<and> map_of (fst (judge (example_loads []) (answering ''{"score": true}'')
                ''p'' ''r'' QUALITY None 70 0)) ''score'' = Some (PBool True)
   \<and> map_of (fst (judge (example_loads []) (answering ''{"score": true}'')
                ''p'' ''r'' QUALITY None 70 0)) ''passed'' = Some (PBool False)\<close>
proof -
  note q = prompt_quality[of "''p''" "''r''"]
  note a = answering_create[of _ 0]
  note p1 = example_loads_parse[OF decode_no_score, of "[]"]
  note p2 = example_loads_parse[OF decode_string_score, of "[]"]
  note p3 = example_loads_parse[OF decode_true_score, of "[]"]
  from judge_score_default[OF q a p1, where passing_score = 70]
  have e1: \<open>map_of (fst (judge (example_loads []) (answering ''{"passed": true}'')
                ''p'' ''r'' QUALITY None 70 0)) ''score'' = Some (PInt 0)
   \<and> map_of (fst (judge (example_loads []) (answering ''{"passed": true}'')
                ''p'' ''r'' QUALITY None 70 0)) ''passed'' = Some (PBool False)\<close>
    by (simp add: dict_get_def py_and_def)
  from judge_score_default[OF q a p2, where passing_score = 70 and v = "PStr ''85''"]
  have e2: \<open>fst (judge (example_loads []) (answering ''{"score": "85", "passed": true}'')
                ''p'' ''r'' QUALITY None 70 0)
       = [(''error'', PStr (quoted ''>='' @ '' not supported between instances of ''
                     @ quoted ''str'' @ '' and '' @ quoted ''int'')),
          (''passed'', PBool False),
          (''score'', PInt 0)]\<close>
    by simp
  from judge_score_default[OF q a p3, where passing_score = 70 and b = True]
  have e3: \<open>map_of (fst (judge (example_loads []) (answering ''{"score": true}'')
                ''p'' ''r'' QUALITY None 70 0)) ''score'' = Some (PBool True)
   \<and> map_of (fst (judge (example_loads []) (answering ''{"score": true}'')
                ''p'' ''r'' QUALITY None 70 0)) ''passed'' = Some (PBool False)\<close>
    by (simp add: dict_get_def py_and_def)
  from e1 e2 e3 p1 p2 p3 show ?thesis by simp
qed

text \<open>
  The claim as stated gives score 0 to every score that is not a number. For the
  judgment \<^verbatim>\<open>{"score": true}\<close> and passing score 1 the comparison \<^verbatim>\<open>True >= 1\<close> holds, and
  \<open>judge\<close> returns score \<^verbatim>\<open>True\<close> and passed true, with no error.
\<close>

theorem judge_score_default_counterexample:
  \<open>judge_parse (example_loads []) ''{"score": true}'' = Inr (PDict [(''score'', PBool True)])
   \<and> map_of (fst (judge (example_loads []) (answering ''{"score": true}'')
                ''p'' ''r'' QUALITY None 1 0)) ''score'' = Some (PBool True)
   \<and> map_of (fst (judge (example_loads []) (answering ''{"score": true}'')
                ''p'' ''r'' QUALITY None 1 0)) ''score'' \<noteq> Some (PInt 0)
   \<and> map_of (fst (judge (example_loads []) (answering ''{"score": true}'')
                ''p'' ''r'' QUALITY None 1 0)) ''passed'' = Some (PBool True)
   \<and> map_of (fst (judge (example_loads []) (answering ''{"score": true}'')
                ''p'' ''r'' QUALITY None 1 0)) ''error'' = None\<close>
proof -
  note p = example_loads_parse[OF decode_true_score, of "[]"]
  have v: \<open>fst (judge (example_loads []) (answering ''{"score": true}'') ''p'' ''r'' QUALITY None 1 0)
     = [(''judgment'', PDict [(''score'', PBool True)]),
        (''raw_response'', PStr ''{"score": true}''),
        (''passed'', PBool True),
        (''score'', PBool True),
        (''judge_type'', PStr ''quality''),
        (''feedback'', PStr [])]\<close>
    by (simp add: judge_answered_dict[OF prompt_quality answering_create p] dict_get_def py_and_def)
  from p show ?thesis unfolding v by simp
qed

section \<open>Batch judgment\<close>

lemma judge_multiple_loop_acc:
  "judge_multiple_loop loads self original_prompt judge_type criteria passing_score results responses w =
     (results @ fst (judge_multiple_loop loads self original_prompt judge_type criteria passing_score [] responses w),
      snd (judge_multiple_loop loads self original_prompt judge_type criteria passing_score [] responses w))"
proof (induction responses arbitrary: results w)
  case Nil
  show ?case by simp
next
  case (Cons response responses)
  obtain result w' where j: "judge loads self original_prompt response judge_type criteria passing_score w = (result, w')"
    by (cases "judge loads self original_prompt response judge_type criteria passing_score w")
  show ?case
    using Cons.IH[of "results @ [result]" w'] Cons.IH[of "[result]" w'] by (simp add: j)
qed

lemma judge_multiple_Nil:
  "judge_multiple loads self original_prompt [] judge_type criteria passing_score w = ([], w)"
  by (simp add: judge_multiple_def)

lemma judge_multiple_Cons:
  "judge_multiple loads self original_prompt (response # responses) judge_type criteria passing_score w =
     (fst (judge loads self original_prompt response judge_type criteria passing_score w)
        # fst (judge_multiple loads self original_prompt responses judge_type criteria passing_score
                 (snd (judge loads self original_prompt response judge_type criteria passing_score w))),
      snd (judge_multiple loads self original_prompt responses judge_type criteria passing_score
                 (snd (judge loads self original_prompt response judge_type criteria passing_score w))))"
proof -
  obtain result w' where j: "judge loads self original_prompt response judge_type criteria passing_score w = (result, w')"
    by (cases "judge loads self original_prompt response judge_type criteria passing_score w")
  show ?thesis
    using judge_multiple_loop_acc[of loads self original_prompt judge_type criteria passing_score "[result]" responses w']
    by (simp add: judge_multiple_def j)
qed

lemma judge_multiple_length:
  "length (fst (judge_multiple loads self original_prompt responses judge_type criteria passing_score w))
     = length responses"
  by (induction responses arbitrary: w) (simp_all add: judge_multiple_Nil judge_multiple_Cons)

lemma judge_multiple_nth:
  "i < length responses \<Longrightarrow>
   fst (judge_multiple loads self original_prompt responses judge_type criteria passing_score w) ! i =
     fst (judge loads self original_prompt (responses ! i) judge_type criteria passing_score
            (snd (judge_multiple loads self original_prompt (take i responses) judge_type criteria
                    passing_score w)))"
proof (induction responses arbitrary: w i)
  case Nil
  then show ?case by simp
next
  case (Cons response responses)
  show ?case
  proof (cases i)
    case 0
    then show ?thesis by (simp add: judge_multiple_Nil judge_multiple_Cons)
  next
    case (Suc k)
    with Cons.prems have "k < length responses" by simp
    from Cons.IH[OF this] Suc show ?thesis by (simp add: judge_multiple_Cons)
  qed
qed

lemma judge_verdict_of_outcome:
  "fst (judge loads self original_prompt response judge_type criteria passing_score w) =
     (case get_judge_prompt original_prompt response judge_type criteria of
        Inl e \<Rightarrow> judge_error e
      | Inr p \<Rightarrow>
          (case fst (chat_create self w (judge_request self p)) of
             Inl e \<Rightarrow> judge_error e
           | Inr None \<Rightarrow>
               judge_error (TypeError ''the JSON object must be str, bytes or bytearray, not NoneType'')
           | Inr (Some raw) \<Rightarrow>
               (case judge_parse loads raw of
                  Inl e \<Rightarrow> judge_error e
                | Inr parsed \<Rightarrow>
                    (case judge_reconcile parsed raw judge_type passing_score of
                       Inl e \<Rightarrow> judge_error e
                     | Inr verdict \<Rightarrow> verdict))))"
  by (simp add: judge_def judge_try_def split: sum.splits prod.splits option.splits)

lemma judge_world_independent:
  assumes "\<forall>w req. fst (chat_create self w req) = answer req"
  shows "fst (judge loads self original_prompt response judge_type criteria passing_score w) =
         fst (judge loads self original_prompt response judge_type criteria passing_score w0)"
proof -
  have "fst (chat_create self w req) = fst (chat_create self w0 req)" for req
    using assms by simp
  then show ?thesis
    by (simp add: judge_verdict_of_outcome split: sum.splits)
qed

lemma judge_multiple_map:
  assumes "\<forall>w req. fst (chat_create self w req) = answer req"
  shows "fst (judge_multiple loads self original_prompt responses judge_type criteria passing_score w) =
     map (\<lambda>response. fst (judge loads self original_prompt response judge_type criteria passing_score w0))
       responses"
proof (induction responses arbitrary: w)
  case Nil
  show ?case by (simp add: judge_multiple_Nil)
next
  case (Cons response responses)
  show ?case
    using judge_world_independent[OF assms, of loads original_prompt response judge_type criteria
        passing_score w w0]
    by (simp add: judge_multiple_Cons Cons.IH)
qed

text \<open>
  Claim C9. \<open>judge_multiple\<close> returns one verdict for each response, in the order of the
  responses: the verdict at position \<open>i\<close> is the verdict of \<open>judge\<close> on the response at
  position \<open>i\<close>, in the world left by the responses before it. Nothing else passes from
  one item to the next: when the answers of the judge model do not depend on the world,
  the result is \<open>judge\<close> mapped over the responses.
\<close>

theorem judge_multiple_verdicts:
  "length (fst (judge_multiple loads self original_prompt responses judge_type criteria passing_score w))
     = length responses
   \<and> (\<forall>i < length responses.
        fst (judge_multiple loads self original_prompt responses judge_type criteria passing_score w) ! i =
          fst (judge loads self original_prompt (responses ! i) judge_type criteria passing_score
                 (snd (judge_multiple loads self original_prompt (take i responses) judge_type criteria
                         passing_score w))))
   \<and> ((\<forall>w req. fst (chat_create self w req) = answer req) \<longrightarrow>
        fst (judge_multiple loads self original_prompt responses judge_type criteria passing_score w) =
          map (\<lambda>response.
                 fst (judge loads self original_prompt response judge_type criteria passing_score w))
            responses)"
  using judge_multiple_map[of self answer loads original_prompt responses judge_type criteria passing_score w w]
  by (simp add: judge_multiple_length judge_multiple_nth)

theorem judge_multiple_verdicts_witness:
  \<open>length (fst (judge_multiple (example_loads []) (answering ''{"score": 85, "passed": true}'')
                  ''p'' [''first'', ''second''] QUALITY None 70 0)) = 2
   \<and> fst (judge_multiple (example_loads []) (answering ''{"score": 85, "passed": true}'')
            ''p'' [''first'', ''second''] QUALITY None 70 0) ! 0
       = fst (judge (example_loads []) (answering ''{"score": 85, "passed": true}'')
                ''p'' ''first'' QUALITY None 70 0)
   \<and> fst (judge_multiple (example_loads []) (answering ''{"score": 85, "passed": true}'')
            ''p'' [''first'', ''second''] QUALITY None 70 0) ! 1
       = fst (judge (example_loads []) (answering ''{"score": 85, "passed": true}'')
                ''p'' ''second'' QUALITY None 70 1)
   \<and> snd (judge_multiple (example_loads []) (answering ''{"score": 85, "passed": true}'')
            ''p'' [''first'', ''second''] QUALITY None 70 0) = 2
   \<and> (\<forall>w req. fst (chat_create (answering ''{"score": 85, "passed": true}'') w req)
         = Inr (Some ''{"score": 85, "passed": true}''))
   \<and> fst (judge_multiple (example_loads []) (answering ''{"score": 85, "passed": true}'')
            ''p'' [''first'', ''second''] QUALITY None 70 0)
       = [fst (judge (example_loads []) (answering ''{"score": 85, "passed": true}'')
                ''p'' ''first'' QUALITY None 70 0),
          fst (judge (example_loads []) (answering ''{"score": 85, "passed": true}'')
                ''p'' ''second'' QUALITY None 70 0)]\<close>
proof -
  have pure: \<open>\<forall>w req. fst (chat_create (answering ''{"score": 85, "passed": true}'') w req)
         = Inr (Some ''{"score": 85, "passed": true}'')\<close>
    by (simp add: answering_def)
  have world: \<open>snd (judge (example_loads []) (answering ''{"score": 85, "passed": true}'')
                ''p'' r QUALITY None 70 n) = Suc n\<close> for r n
    by (simp add: judge_answered[OF prompt_quality answering_create])
  note inst = judge_multiple_verdicts[of "example_loads []" \<open>answering ''{"score": 85, "passed": true}''\<close>
      "''p''" "[''first'', ''second'']" QUALITY None 70 0
      \<open>\<lambda>req. Inr (Some ''{"score": 85, "passed": true}'')\<close>]
  from conjunct1[OF inst]
  have len: \<open>length (fst (judge_multiple (example_loads []) (answering ''{"score": 85, "passed": true}'')
                  ''p'' [''first'', ''second''] QUALITY None 70 0)) = 2\<close>
    by simp
  note nth = conjunct1[OF conjunct2[OF inst], rule_format]
  from nth[of 0]
  have n0: \<open>fst (judge_multiple (example_loads []) (answering ''{"score": 85, "passed": true}'')
            ''p'' [''first'', ''second''] QUALITY None 70 0) ! 0
       = fst (judge (example_loads []) (answering ''{"score": 85, "passed": true}'')
                ''p'' ''first'' QUALITY None 70 0)\<close>
    by (simp add: judge_multiple_Nil)
  from nth[of 1]
  have n1: \<open>fst (judge_multiple (example_loads []) (answering ''{"score": 85, "passed": true}'')
            ''p'' [''first'', ''second''] QUALITY None 70 0) ! 1
       = fst (judge (example_loads []) (answering ''{"score": 85, "passed": true}'')
                ''p'' ''second'' QUALITY None 70 1)\<close>
    by (simp add: judge_multiple_Nil judge_multiple_Cons world)
  from conjunct2[OF conjunct2[OF inst], rule_format, OF pure[rule_format]]
  have all: \<open>fst (judge_multiple (example_loads []) (answering ''{"score": 85, "passed": true}'')
            ''p'' [''first'', ''second''] QUALITY None 70 0)
       = [fst (judge (example_loads []) (answering ''{"score": 85, "passed": true}'')
                ''p'' ''first'' QUALITY None 70 0),
          fst (judge (example_loads []) (answering ''{"score": 85, "passed": true}'')
                ''p'' ''second'' QUALITY None 70 0)]\<close>
    by simp
  have fin: \<open>snd (judge_multiple (example_loads []) (answering ''{"score": 85, "passed": true}'')
            ''p'' [''first'', ''second''] QUALITY None 70 0) = 2\<close>
    by (simp add: judge_multiple_Nil judge_multiple_Cons world)
  from len n0 n1 fin pure all show ?thesis by blast
qed

section \<open>The keys of every verdict\<close>



end
